theory Spec2Isabelle
  imports Complex_Main "HOL-Library.AList" "HOL-Library.Sublist"
begin

section \<open>Data model of the MCP hub\<close>

text \<open>
  The hub (class \<open>McpHub\<close>) keeps a list of connections and three tracker maps
  (progress tokens, pending requests, tasks). Objects that live outside the hub (SDK
  clients, transports, abort controllers, file watchers, timers) are represented by
  handles; every call the hub makes on them is appended to a trace of effects, in
  program order. A thrown JavaScript value is a value of type \<open>exn\<close>; an operation
  returns its outcome together with the hub as it is when the operation ends, because
  mutations made before a throw persist.
\<close>

datatype McpSource = Global | Project

datatype ServerStatus = Connected | Connecting | Disconnected

datatype ErrorLevel = LvError | LvWarn | LvInfo

datatype ErrorCode = InternalError | InvalidRequest

datatype exn = Error string | McpError ErrorCode string

text \<open>Progress tokens and request ids have the TypeScript type \<open>string | number\<close>.\<close>

datatype jsid = StrId string | NumId int

text \<open>JavaScript truthiness of a \<open>string | number\<close> value.\<close>

fun truthy :: "jsid \<Rightarrow> bool" where
  "truthy (StrId s) = (s \<noteq> [])"
| "truthy (NumId n) = (n \<noteq> 0)"

record McpErrorEntry =
  message :: string
  timestamp :: int
  level :: ErrorLevel

record McpServer =
  name :: string
  config :: string
  status :: ServerStatus
  error :: "string option"
  errorHistory :: "McpErrorEntry list option"
  tools :: "string list option"
  resources :: "string list option"
  resourceTemplates :: "string list option"
  prompts :: "string list option"
  disabled :: "bool option"
  source :: "McpSource option"
  instructions :: "string option"

record ServerCapabilities =
  capTasks :: bool

text \<open>
  An SDK client and a transport are objects: the handle identifies the object, and
  whether its \<open>close()\<close> rejects is a property of the object.
\<close>

record Client =
  clientId :: nat
  serverCapabilities :: "ServerCapabilities option"
  clientCloseThrows :: bool

record Transport =
  transportId :: nat
  transportCloseThrows :: bool

datatype McpConnection =
    ConnectedMcpConnection McpServer Client Transport
  | DisconnectedMcpConnection McpServer

fun server :: "McpConnection \<Rightarrow> McpServer" where
  "server (ConnectedMcpConnection s c t) = s"
| "server (DisconnectedMcpConnection s) = s"

fun mapServer :: "(McpServer \<Rightarrow> McpServer) \<Rightarrow> McpConnection \<Rightarrow> McpConnection" where
  "mapServer f (ConnectedMcpConnection s c t) = ConnectedMcpConnection (f s) c t"
| "mapServer f (DisconnectedMcpConnection s) = DisconnectedMcpConnection (f s)"

fun clientOf :: "McpConnection \<Rightarrow> Client option" where
  "clientOf (ConnectedMcpConnection s c t) = Some c"
| "clientOf (DisconnectedMcpConnection s) = None"

fun transportOf :: "McpConnection \<Rightarrow> Transport option" where
  "transportOf (ConnectedMcpConnection s c t) = Some t"
| "transportOf (DisconnectedMcpConnection s) = None"

datatype TaskStatus = Working | InputRequired | Completed | Failed | Cancelled

text \<open>The task descriptor a peer sends (\<open>result.task\<close>, notification params).\<close>

record Task =
  taskId :: string
  taskStatus :: TaskStatus
  statusMessage :: "string option"
  pollInterval :: "int option"

record ProgressTokenData =
  p_serverName :: string
  p_callback :: "nat option"
  p_lastProgress :: real

record PendingRequestData =
  r_serverName :: string
  r_controller :: nat

record TaskData =
  t_serverName :: string
  t_source :: "McpSource option"
  t_status :: TaskStatus
  t_progressToken :: "jsid option"
  t_pollInterval :: "int option"
  t_message :: "string option"
  t_createdAt :: int
  t_updatedAt :: int

datatype PeerMethod =
    ToolsCall string string
  | ToolsCallTask string string "int option" "jsid option"
  | TasksGet string
  | TasksResult string
  | TasksCancel string

datatype WebviewMessage =
    McpProgress string jsid real "real option" "string option"
  | McpTaskStatus string string TaskStatus "string option" "int option"
  | ServerChanges

datatype TransportType = Stdio | SSE | StreamableHttp

datatype LogMessage =
    FailedToCloseTransport string
  | NonMonotonicProgress jsid real real
  | CancellationWithoutRequestId
  | ReceivedCancellation jsid "string option"
  | IgnoringCancellation jsid
  | StatusForUnknownTask string
  | ShowError string exn
  | TransportErrorLog TransportType string exn
  | ServerInfoLog string string
  | ServerStderrLog string string
  | PostMessageFailed exn

datatype effect =
    TransportClose nat
  | ClientClose nat
  | WatcherClose nat
  | ClearTimeout nat
  | Dispose nat
  | ConsoleError LogMessage
  | ConsoleWarn LogMessage
  | ConsoleLog LogMessage
  | ConsoleDebug LogMessage
  | PostMessage WebviewMessage
  | InvokeCallback nat real "real option" "string option"
  | InvokeStatusChange nat TaskStatus "string option"
  | Abort nat "string option"
  | PeerRequest nat PeerMethod
  | ShowInformation string
  | Delay int

record McpHub =
  provider :: bool
  mcpEnabledState :: "bool option"
  disposables :: "nat list"
  settingsWatcher :: "nat option"
  fileWatchers :: "(string \<times> nat list) list"
  projectMcpWatcher :: "nat option"
  isDisposed :: bool
  connections :: "McpConnection list"
  isConnecting :: bool
  configChangeDebounceTimers :: "(string \<times> nat) list"
  isProgrammaticUpdate :: bool
  flagResetTimer :: "nat option"
  sanitizedNameRegistry :: "string \<rightharpoonup> string"
  activeProgressTokens :: "jsid \<rightharpoonup> ProgressTokenData"
  pendingRequests :: "jsid \<rightharpoonup> PendingRequestData"
  activeTasks :: "string \<rightharpoonup> TaskData"
  resourceSubscriptions :: "string \<rightharpoonup> string list"
  trace :: "effect list"

definition emit :: "effect list \<Rightarrow> McpHub \<Rightarrow> McpHub" where
  "emit es h = h\<lparr>trace := trace h @ es\<rparr>"

section \<open>Error history\<close>

definition MAX_ERROR_LENGTH :: nat where
  "MAX_ERROR_LENGTH = 1000"

definition truncateError :: "string \<Rightarrow> string" where
  "truncateError e =
     (if length e > MAX_ERROR_LENGTH
      then take MAX_ERROR_LENGTH e @ ''...(error message truncated)''
      else e)"

definition appendErrorMessage :: "McpServer \<Rightarrow> string \<Rightarrow> ErrorLevel \<Rightarrow> int \<Rightarrow> McpServer" where
  "appendErrorMessage srv err lvl now =
     (let truncatedError = truncateError err;
          hist = (case errorHistory srv of None \<Rightarrow> [] | Some es \<Rightarrow> es)
                   @ [\<lparr>message = truncatedError, timestamp = now, level = lvl\<rparr>];
          hist' = (if length hist > 100 then drop (length hist - 100) hist else hist)
      in srv\<lparr>errorHistory := Some hist', error := Some truncatedError\<rparr>)"

text \<open>Decimal rendering of an integer inside a template string.\<close>

fun showNat :: "nat \<Rightarrow> string" where
  "showNat n =
     (if n < 10 then [char_of (48 + n)]
      else showNat (n div 10) @ [char_of (48 + n mod 10)])"

definition showInt :: "int \<Rightarrow> string" where
  "showInt i = (if i < 0 then ''-'' @ showNat (nat (- i)) else showNat (nat i))"

text \<open>The JSON-RPC numbers of the two error codes.\<close>

fun errorCodeNumber :: "ErrorCode \<Rightarrow> int" where
  "errorCodeNumber InternalError = - 32603"
| "errorCodeNumber InvalidRequest = - 32600"

text \<open>
  \<open>error instanceof Error ? error.message : `${error}`\<close>. An \<open>McpError\<close> is
  written with the two arguments of its constructor; the constructor of the SDK builds
  the message of the error object as \<open>`MCP error ${code}: ${message}`\<close>.
\<close>

fun errorMessage :: "exn \<Rightarrow> string" where
  "errorMessage (Error m) = m"
| "errorMessage (McpError c m) = ''MCP error '' @ showInt (errorCodeNumber c) @ '': '' @ m"

section \<open>Finding and deleting connections\<close>

definition findConnection :: "McpHub \<Rightarrow> string \<Rightarrow> McpSource option \<Rightarrow> McpConnection option" where
  "findConnection h serverName src =
     (case src of
        Some s \<Rightarrow>
          find (\<lambda>conn. name (server conn) = serverName \<and> source (server conn) = Some s)
            (connections h)
      | None \<Rightarrow>
          (case find (\<lambda>conn. name (server conn) = serverName \<and> source (server conn) = Some Project)
                  (connections h) of
             Some projectConn \<Rightarrow> Some projectConn
           | None \<Rightarrow>
               find (\<lambda>conn. name (server conn) = serverName
                        \<and> (source (server conn) = Some Global \<or> source (server conn) = None))
                 (connections h)))"

text \<open>
  A connection returned by \<open>find\<close> is a reference into the list: assigning to its
  fields changes the first element that satisfies the predicate.
\<close>

fun updateFirst :: "('a \<Rightarrow> bool) \<Rightarrow> ('a \<Rightarrow> 'a) \<Rightarrow> 'a list \<Rightarrow> 'a list" where
  "updateFirst P f [] = []"
| "updateFirst P f (x # xs) = (if P x then f x # xs else x # updateFirst P f xs)"

definition removeFileWatchersForServer :: "string \<Rightarrow> McpHub \<Rightarrow> McpHub" where
  "removeFileWatchersForServer serverName h =
     (case map_of (fileWatchers h) serverName of
        Some watchers \<Rightarrow>
          emit (map WatcherClose watchers)
            (h\<lparr>fileWatchers := AList.delete serverName (fileWatchers h)\<rparr>)
      | None \<Rightarrow> h)"

definition removeAllFileWatchers :: "McpHub \<Rightarrow> McpHub" where
  "removeAllFileWatchers h =
     emit (map WatcherClose (concat (map snd (fileWatchers h)))) (h\<lparr>fileWatchers := []\<rparr>)"

text \<open>
  One turn of the closing loop of \<open>deleteConnection\<close>: \<open>transport.close()\<close>, then
  \<open>client.close()\<close>; the first rejection leaves the \<open>try\<close> block and is logged.
\<close>

fun closeConnection :: "string \<Rightarrow> McpConnection \<Rightarrow> effect list" where
  "closeConnection nm (ConnectedMcpConnection s c t) =
     (if transportCloseThrows t
      then [TransportClose (transportId t), ConsoleError (FailedToCloseTransport nm)]
      else if clientCloseThrows c
      then [TransportClose (transportId t), ClientClose (clientId c),
            ConsoleError (FailedToCloseTransport nm)]
      else [TransportClose (transportId t), ClientClose (clientId c)])"
| "closeConnection nm (DisconnectedMcpConnection s) = []"

text \<open>The connections \<open>deleteConnection\<close> selects for a name and an optional source.\<close>

definition selected :: "string \<Rightarrow> McpSource option \<Rightarrow> McpConnection \<Rightarrow> bool" where
  "selected nm src conn =
     (case src of
        Some s \<Rightarrow> name (server conn) = nm \<and> source (server conn) = Some s
      | None \<Rightarrow> name (server conn) = nm)"

text \<open>
  The predicate of the second filter of \<open>deleteConnection\<close>, which keeps a connection:
  \<open>if (name differs) return true; if (source && source differs) return true; return false\<close>.
\<close>

definition kept :: "string \<Rightarrow> McpSource option \<Rightarrow> McpConnection \<Rightarrow> bool" where
  "kept nm src conn =
     (if name (server conn) \<noteq> nm then True
      else if (case src of Some s \<Rightarrow> source (server conn) \<noteq> Some s | None \<Rightarrow> False) then True
      else False)"

text \<open>\<open>sanitizeMcpName\<close> lives outside the files at hand; it is a parameter of the model.\<close>

definition deleteConnection ::
  "(string \<Rightarrow> string) \<Rightarrow> string \<Rightarrow> McpSource option \<Rightarrow> McpHub \<Rightarrow> McpHub" where
  "deleteConnection sanitizeMcpName nm src h =
     (let h1 = removeFileWatchersForServer nm h;
          conns = filter (selected nm src) (connections h1);
          h2 = emit (concat (map (closeConnection nm) conns)) h1;
          h3 = h2\<lparr>connections := filter (kept nm src) (connections h2)\<rparr>;
          remainingConnections = filter (\<lambda>conn. name (server conn) = nm) (connections h3)
      in if length remainingConnections = 0
         then h3\<lparr>sanitizedNameRegistry := (sanitizedNameRegistry h3)(sanitizeMcpName nm := None)\<rparr>
         else h3)"

section \<open>Progress tokens and pending requests\<close>

text \<open>\<open>crypto.randomUUID()\<close> is the parameter \<open>uuid\<close>.\<close>

definition generateProgressToken ::
  "string \<Rightarrow> nat option \<Rightarrow> string \<Rightarrow> McpHub \<Rightarrow> jsid \<times> McpHub" where
  "generateProgressToken serverName callback uuid h =
     (let token = StrId uuid
      in (token,
          h\<lparr>activeProgressTokens := (activeProgressTokens h)
               (token \<mapsto> \<lparr>p_serverName = serverName, p_callback = callback, p_lastProgress = 0\<rparr>)\<rparr>))"

definition clearProgressToken :: "jsid \<Rightarrow> McpHub \<Rightarrow> McpHub" where
  "clearProgressToken token h =
     h\<lparr>activeProgressTokens := (activeProgressTokens h)(token := None)\<rparr>"

text \<open>\<open>new AbortController()\<close> is the handle \<open>controller\<close>.\<close>

definition registerCancellableRequest :: "string \<Rightarrow> jsid \<Rightarrow> nat \<Rightarrow> McpHub \<Rightarrow> nat \<times> McpHub" where
  "registerCancellableRequest serverName requestId controller h =
     (controller,
      h\<lparr>pendingRequests := (pendingRequests h)
           (requestId \<mapsto> \<lparr>r_serverName = serverName, r_controller = controller\<rparr>)\<rparr>)"

definition unregisterRequest :: "jsid \<Rightarrow> McpHub \<Rightarrow> McpHub" where
  "unregisterRequest requestId h =
     h\<lparr>pendingRequests := (pendingRequests h)(requestId := None)\<rparr>"

section \<open>Notification handlers\<close>

text \<open>
  The three handlers are written twice in the sources, inline in \<open>connectToServer\<close>
  and in \<open>NotificationHandlers.ts\<close>, with the same statements; one definition models
  both. Observer callbacks and \<open>postMessageToWebview\<close> are taken to return normally.
\<close>

definition progressHandler ::
  "jsid \<Rightarrow> real \<Rightarrow> real option \<Rightarrow> string option \<Rightarrow> McpHub \<Rightarrow> (exn + unit) \<times> McpHub" where
  "progressHandler progressToken progress tot msg h =
     (case activeProgressTokens h progressToken of
        Some tokenData \<Rightarrow>
          (let h1 = (if progress < p_lastProgress tokenData
                     then emit [ConsoleWarn (NonMonotonicProgress progressToken progress
                                               (p_lastProgress tokenData))] h
                     else h);
               h2 = h1\<lparr>activeProgressTokens := (activeProgressTokens h1)
                         (progressToken \<mapsto> tokenData\<lparr>p_lastProgress := progress\<rparr>)\<rparr>;
               h3 = (case p_callback tokenData of
                       Some cb \<Rightarrow> emit [InvokeCallback cb progress tot msg] h2
                     | None \<Rightarrow> h2)
           in (Inr (),
               if provider h3
               then emit [PostMessage (McpProgress (p_serverName tokenData) progressToken
                                         progress tot msg)] h3
               else h3))
      | None \<Rightarrow> (Inr (), h))"

definition cancellationHandler ::
  "jsid option \<Rightarrow> string option \<Rightarrow> McpHub \<Rightarrow> (exn + unit) \<times> McpHub" where
  "cancellationHandler requestId reason h =
     (case requestId of
        None \<Rightarrow> (Inr (), emit [ConsoleWarn CancellationWithoutRequestId] h)
      | Some rid \<Rightarrow>
          (case pendingRequests h rid of
             Some pendingRequest \<Rightarrow>
               (Inr (),
                (emit [ConsoleLog (ReceivedCancellation rid reason),
                       Abort (r_controller pendingRequest) reason] h)
                  \<lparr>pendingRequests := (pendingRequests h)(rid := None)\<rparr>)
           | None \<Rightarrow> (Inr (), emit [ConsoleDebug (IgnoringCancellation rid)] h)))"

definition taskStatusHandler ::
  "string \<Rightarrow> TaskStatus \<Rightarrow> string option \<Rightarrow> int option \<Rightarrow> int \<Rightarrow> McpHub
     \<Rightarrow> (exn + unit) \<times> McpHub" where
  "taskStatusHandler tid st stMessage pollIv now h =
     (case activeTasks h tid of
        Some taskData \<Rightarrow>
          (let taskData' = taskData
                 \<lparr>t_status := st,
                  t_message := stMessage,
                  t_pollInterval := (case pollIv of Some p \<Rightarrow> Some p
                                     | None \<Rightarrow> t_pollInterval taskData),
                  t_updatedAt := now\<rparr>;
               h1 = h\<lparr>activeTasks := (activeTasks h)(tid \<mapsto> taskData')\<rparr>
           in (Inr (),
               if provider h1
               then emit [PostMessage (McpTaskStatus (t_serverName taskData') tid st stMessage
                                         pollIv)] h1
               else h1))
      | None \<Rightarrow> (Inr (), emit [ConsoleDebug (StatusForUnknownTask tid)] h))"

section \<open>Tasks\<close>

definition notConnected :: "string \<Rightarrow> exn" where
  "notConnected serverName = McpError InternalError (''Server '' @ serverName @ '' not connected'')"

text \<open>\<open>connection?.client\<close>: the client of the connection found, if any.\<close>

definition connectedClient :: "McpHub \<Rightarrow> string \<Rightarrow> McpSource option \<Rightarrow> Client option" where
  "connectedClient h serverName src =
     (case findConnection h serverName src of
        None \<Rightarrow> None
      | Some conn \<Rightarrow> clientOf conn)"

text \<open>\<open>serverCapabilities?.tasks\<close> is truthy.\<close>

definition tasksDeclared :: "Client \<Rightarrow> bool" where
  "tasksDeclared cl = (case serverCapabilities cl of Some caps \<Rightarrow> capTasks caps | None \<Rightarrow> False)"

text \<open>
  What the peer answers to the task-augmented \<open>callTool\<close>: a result that parses as a
  \<open>CreateTaskResult\<close> with a task, or anything else.
\<close>

datatype CallToolOutcome = CreateTaskResult Task | PlainResult string

datatype CallToolAsTaskResult = TaskRef string "int option" | ToolResult string

record CallToolOptions =
  o_source :: "McpSource option"
  o_ttl :: "int option"
  o_progressCallback :: "nat option"

text \<open>
  The parts of a call that the hub does not decide: the UUID drawn, what the peer answers
  to the plain request and to the augmented one, and the two readings of \<open>Date.now()\<close>.
\<close>

record CallToolEnv =
  e_uuid :: string
  e_plain :: "exn + string"
  e_augmented :: "exn + CallToolOutcome"
  e_createdAt :: int
  e_updatedAt :: int

definition clearIfTruthy :: "jsid option \<Rightarrow> McpHub \<Rightarrow> McpHub" where
  "clearIfTruthy progressToken h =
     (case progressToken of
        Some token \<Rightarrow> if truthy token then clearProgressToken token h else h
      | None \<Rightarrow> h)"

definition callToolAsTask ::
  "McpHub \<Rightarrow> string \<Rightarrow> string \<Rightarrow> string \<Rightarrow> CallToolOptions \<Rightarrow> CallToolEnv
     \<Rightarrow> (exn + CallToolAsTaskResult) \<times> McpHub" where
  "callToolAsTask h serverName toolName args opts env =
     (case connectedClient h serverName (o_source opts) of
        None \<Rightarrow> (Inl (notConnected serverName), h)
      | Some cl \<Rightarrow>
          if \<not> tasksDeclared cl
          then
            (let h1 = emit [PeerRequest (clientId cl) (ToolsCall toolName args)] h
             in case e_plain env of
                  Inl e \<Rightarrow> (Inl e, h1)
                | Inr result \<Rightarrow> (Inr (ToolResult result), h1))
          else
            (let (progressToken, h1) =
                   (case o_progressCallback opts of
                      Some cb \<Rightarrow>
                        (let (token, h') = generateProgressToken serverName (Some cb) (e_uuid env) h
                         in (Some token, h'))
                    | None \<Rightarrow> (None, h));
                 metaToken = (case progressToken of
                                Some token \<Rightarrow> if truthy token then Some token else None
                              | None \<Rightarrow> None);
                 h2 = emit [PeerRequest (clientId cl)
                              (ToolsCallTask toolName args (o_ttl opts) metaToken)] h1
             in case e_augmented env of
                  Inl e \<Rightarrow> (Inl e, clearIfTruthy progressToken h2)
                | Inr (CreateTaskResult task) \<Rightarrow>
                    (Inr (TaskRef (taskId task) (pollInterval task)),
                     h2\<lparr>activeTasks := (activeTasks h2)
                          (taskId task \<mapsto>
                             \<lparr>t_serverName = serverName,
                              t_source = o_source opts,
                              t_status = taskStatus task,
                              t_progressToken = progressToken,
                              t_pollInterval = pollInterval task,
                              t_message = statusMessage task,
                              t_createdAt = e_createdAt env,
                              t_updatedAt = e_updatedAt env\<rparr>)\<rparr>)
                | Inr (PlainResult result) \<Rightarrow>
                    (Inr (ToolResult result), clearIfTruthy progressToken h2)))"

text \<open>
  Modelled from the spec: the SDK's \<open>GetTaskResultSchema\<close> and
  \<open>CancelTaskResultSchema\<close>, which are not among the sources. The answer to
  \<open>tasks/get\<close> and to \<open>tasks/cancel\<close> is the task descriptor itself,
  \<open>{ taskId, status, statusMessage?, pollInterval?, ttl? }\<close>; the design note of the
  repository declares \<open>getTask\<close> as \<open>Promise<Task>\<close> and returns the answer
  parsed with \<open>GetTaskResultSchema\<close> as it is. The parsed answer therefore has the
  members of a task and no member \<open>task\<close>: the expression \<open>result.task\<close>
  that the hub evaluates on it is \<open>undefined\<close>.
\<close>

definition taskMember :: "Task \<Rightarrow> Task option" where
  "taskMember result = None"

definition getTask ::
  "McpHub \<Rightarrow> string \<Rightarrow> string \<Rightarrow> McpSource option \<Rightarrow> (exn + Task) \<Rightarrow> int
     \<Rightarrow> (exn + Task) \<times> McpHub" where
  "getTask h serverName tid src resp now =
     (case connectedClient h serverName src of
        None \<Rightarrow> (Inl (notConnected serverName), h)
      | Some cl \<Rightarrow>
          (let h1 = emit [PeerRequest (clientId cl) (TasksGet tid)] h
           in case resp of
                Inl e \<Rightarrow> (Inl e, h1)
              | Inr result \<Rightarrow>
                  (Inr result,
                   case activeTasks h1 tid of
                     None \<Rightarrow> h1
                   | Some taskData \<Rightarrow>
                       (case taskMember result of
                          None \<Rightarrow> h1
                        | Some task \<Rightarrow>
                            h1\<lparr>activeTasks := (activeTasks h1)
                                 (tid \<mapsto> taskData
                                    \<lparr>t_status := taskStatus task,
                                     t_message := statusMessage task,
                                     t_pollInterval := pollInterval task,
                                     t_updatedAt := now\<rparr>)\<rparr>))))"

definition getTaskResult ::
  "McpHub \<Rightarrow> string \<Rightarrow> string \<Rightarrow> McpSource option \<Rightarrow> (exn + string)
     \<Rightarrow> (exn + string) \<times> McpHub" where
  "getTaskResult h serverName tid src resp =
     (case connectedClient h serverName src of
        None \<Rightarrow> (Inl (notConnected serverName), h)
      | Some cl \<Rightarrow>
          (let h1 = emit [PeerRequest (clientId cl) (TasksResult tid)] h
           in case resp of
                Inl e \<Rightarrow> (Inl e, h1)
              | Inr result \<Rightarrow>
                  (let h2 = (case activeTasks h1 tid of
                               None \<Rightarrow> h1
                             | Some taskData \<Rightarrow> clearIfTruthy (t_progressToken taskData) h1)
                   in (Inr result, h2\<lparr>activeTasks := (activeTasks h2)(tid := None)\<rparr>))))"

definition cancelTask ::
  "McpHub \<Rightarrow> string \<Rightarrow> string \<Rightarrow> McpSource option \<Rightarrow> (exn + Task) \<Rightarrow> int
     \<Rightarrow> (exn + Task) \<times> McpHub" where
  "cancelTask h serverName tid src resp now =
     (case connectedClient h serverName src of
        None \<Rightarrow> (Inl (notConnected serverName), h)
      | Some cl \<Rightarrow>
          (let h1 = emit [PeerRequest (clientId cl) (TasksCancel tid)] h
           in case resp of
                Inl e \<Rightarrow> (Inl e, h1)
              | Inr result \<Rightarrow>
                  (Inr result,
                   case activeTasks h1 tid of
                     None \<Rightarrow> h1
                   | Some taskData \<Rightarrow>
                       h1\<lparr>activeTasks := (activeTasks h1)
                            (tid \<mapsto> taskData\<lparr>t_status := Cancelled, t_updatedAt := now\<rparr>)\<rparr>)))"

subsection \<open>Polling\<close>

record PollOptions =
  po_source :: "McpSource option"
  po_timeoutMs :: "int option"
  po_onStatusChange :: "nat option"

text \<open>
  What one turn of the polling loop reads from outside: the clock at the timeout check,
  the peer's answer to \<open>tasks/get\<close>, and the clock inside \<open>getTask\<close>.
\<close>

record PollStep =
  ps_clock :: int
  ps_resp :: "exn + Task"
  ps_updatedAt :: int

text \<open>
  The loop \<open>while (true)\<close> of \<open>pollTaskUntilComplete\<close> runs against the list of
  what the successive turns read. The result \<open>None\<close> says that the loop is still
  running when the list ends; \<open>Some\<close> carries what the method returns or throws.
\<close>

fun pollLoop ::
  "McpHub \<Rightarrow> string \<Rightarrow> string \<Rightarrow> PollOptions \<Rightarrow> int \<Rightarrow> (exn + string) \<Rightarrow> PollStep list
     \<Rightarrow> (exn + string) option \<times> McpHub" where
  "pollLoop h serverName tid opts startTime resultResp [] = (None, h)"
| "pollLoop h serverName tid opts startTime resultResp (step # steps) =
     (let timeoutMs = (case po_timeoutMs opts of Some t \<Rightarrow> t | None \<Rightarrow> 300000)
      in if ps_clock step - startTime > timeoutMs
         then (Some (Inl (McpError InternalError
                 (''Task '' @ tid @ '' timed out after '' @ showInt timeoutMs @ ''ms''))), h)
         else
           (case getTask h serverName tid (po_source opts) (ps_resp step) (ps_updatedAt step) of
              (Inl e, h1) \<Rightarrow> (Some (Inl e), h1)
            | (Inr taskResult, h1) \<Rightarrow>
                (case taskMember taskResult of
                   None \<Rightarrow>
                     (Some (Inl (McpError InternalError (''Task '' @ tid @ '' not found''))), h1)
                 | Some task \<Rightarrow>
                     (let h2 = (case po_onStatusChange opts of
                                  Some cb \<Rightarrow>
                                    emit [InvokeStatusChange cb (taskStatus task)
                                            (statusMessage task)] h1
                                | None \<Rightarrow> h1)
                      in if taskStatus task = Completed
                         then (case getTaskResult h2 serverName tid (po_source opts) resultResp of
                                 (r, h3) \<Rightarrow> (Some r, h3))
                         else if taskStatus task = Failed
                         then (Some (Inl (McpError InternalError
                                 (''Task '' @ tid @ '' failed: ''
                                    @ (case statusMessage task of Some m \<Rightarrow> m
                                       | None \<Rightarrow> ''unknown error'')))), h2)
                         else if taskStatus task = Cancelled
                         then (Some (Inl (McpError InternalError
                                 (''Task '' @ tid @ '' was cancelled''))), h2)
                         else pollLoop
                                (emit [Delay (case pollInterval task of Some p \<Rightarrow> p
                                              | None \<Rightarrow> 1000)] h2)
                                serverName tid opts startTime resultResp steps))))"

definition pollTaskUntilComplete ::
  "McpHub \<Rightarrow> string \<Rightarrow> string \<Rightarrow> PollOptions \<Rightarrow> int \<Rightarrow> (exn + string) \<Rightarrow> PollStep list
     \<Rightarrow> (exn + string) option \<times> McpHub" where
  "pollTaskUntilComplete h serverName tid opts startTime resultResp steps =
     pollLoop h serverName tid opts startTime resultResp steps"

section \<open>Notifying the webview and transport events\<close>

text \<open>
  What \<open>notifyWebviewOfServerChanges\<close> meets outside the hub once the provider is
  there: reading and parsing the settings file fails, or the message is posted, or
  posting it fails (which the method catches and logs).
\<close>

datatype NotifyOutcome = SettingsFail exn | PostFail exn | PostOk

text \<open>
  \<open>notifyWebviewOfServerChanges\<close> starts with \<open>getMcpSettingsFilePath\<close>, which
  throws when the provider is gone. The provider is read once more before the message is
  posted; the hub has one reading of the provider for the whole call, so the branch for a
  provider that is gone by then is not reached.
\<close>

definition notifyWebviewOfServerChanges :: "NotifyOutcome \<Rightarrow> McpHub \<Rightarrow> (exn + unit) \<times> McpHub" where
  "notifyWebviewOfServerChanges out h =
     (if \<not> provider h then (Inl (Error ''Provider not available''), h)
      else (case out of
              SettingsFail e \<Rightarrow> (Inl e, h)
            | PostOk \<Rightarrow> (Inr (), emit [PostMessage ServerChanges] h)
            | PostFail e \<Rightarrow>
                (Inr (), emit [PostMessage ServerChanges, ConsoleError (PostMessageFailed e)] h)))"

text \<open>
  The handlers that \<open>connectToServer\<close> sets on the transport it creates:
  \<open>transport.onerror\<close>, \<open>transport.onclose\<close> and, for a stdio transport, the
  listener for data on the standard error stream. Each carries the clock reading and what
  its call of \<open>notifyWebviewOfServerChanges\<close> meets.
\<close>

datatype TransportEvent =
    OnError exn int NotifyOutcome
  | OnClose NotifyOutcome
  | OnStderr string int NotifyOutcome

definition transportOnError ::
  "TransportType \<Rightarrow> string \<Rightarrow> McpSource \<Rightarrow> exn \<Rightarrow> int \<Rightarrow> NotifyOutcome \<Rightarrow> McpHub
     \<Rightarrow> (exn + unit) \<times> McpHub" where
  "transportOnError ty nm src err now out h =
     (let h1 = emit [ConsoleError (TransportErrorLog ty nm err)] h;
          h2 = h1\<lparr>connections :=
                 updateFirst (\<lambda>conn. name (server conn) = nm \<and> source (server conn) = Some src)
                   (mapServer (\<lambda>s. appendErrorMessage (s\<lparr>status := Disconnected\<rparr>)
                                      (errorMessage err) LvError now))
                   (connections h1)\<rparr>
      in notifyWebviewOfServerChanges out h2)"

definition transportOnClose ::
  "string \<Rightarrow> McpSource \<Rightarrow> NotifyOutcome \<Rightarrow> McpHub \<Rightarrow> (exn + unit) \<times> McpHub" where
  "transportOnClose nm src out h =
     notifyWebviewOfServerChanges out
       (h\<lparr>connections :=
            updateFirst (\<lambda>conn. name (server conn) = nm \<and> source (server conn) = Some src)
              (mapServer (\<lambda>s. s\<lparr>status := Disconnected\<rparr>))
              (connections h)\<rparr>)"

text \<open>\<open>/INFO/i.test(output)\<close>\<close>

definition upperAscii :: "char \<Rightarrow> char" where
  "upperAscii c =
     (if 97 \<le> (of_char c :: nat) \<and> (of_char c :: nat) \<le> 122
      then char_of ((of_char c :: nat) - 32) else c)"

definition isInfoLog :: "string \<Rightarrow> bool" where
  "isInfoLog output = sublist ''INFO'' (map upperAscii output)"

definition transportStderr ::
  "string \<Rightarrow> McpSource \<Rightarrow> string \<Rightarrow> int \<Rightarrow> NotifyOutcome \<Rightarrow> McpHub \<Rightarrow> (exn + unit) \<times> McpHub" where
  "transportStderr nm src output now out h =
     (if isInfoLog output then (Inr (), emit [ConsoleLog (ServerInfoLog nm output)] h)
      else
        (let h1 = emit [ConsoleError (ServerStderrLog nm output)] h
         in case findConnection h1 nm (Some src) of
              None \<Rightarrow> (Inr (), h1)
            | Some conn \<Rightarrow>
                (let h2 = h1\<lparr>connections :=
                            updateFirst
                              (\<lambda>conn. name (server conn) = nm \<and> source (server conn) = Some src)
                              (mapServer (\<lambda>s. appendErrorMessage s output LvError now))
                              (connections h1)\<rparr>
                 in if status (server conn) = Disconnected
                    then notifyWebviewOfServerChanges out h2
                    else (Inr (), h2))))"

text \<open>
  An event reaches the handler set for it; what the handler's promise settles to is not
  looked at by anyone. The listener for standard error is attached for stdio transports
  only, once \<open>transport.start()\<close> has returned; \<open>listening\<close> says whether it is
  attached.
\<close>

fun transportEvent ::
  "TransportType \<Rightarrow> bool \<Rightarrow> string \<Rightarrow> McpSource \<Rightarrow> TransportEvent \<Rightarrow> McpHub \<Rightarrow> McpHub" where
  "transportEvent ty listening nm src (OnError err now out) h =
     snd (transportOnError ty nm src err now out h)"
| "transportEvent ty listening nm src (OnClose out) h = snd (transportOnClose nm src out h)"
| "transportEvent ty listening nm src (OnStderr output now out) h =
     (if listening then snd (transportStderr nm src output now out h) else h)"

definition transportEvents ::
  "TransportType \<Rightarrow> bool \<Rightarrow> string \<Rightarrow> McpSource \<Rightarrow> TransportEvent list \<Rightarrow> McpHub
     \<Rightarrow> McpHub" where
  "transportEvents ty listening nm src evs h = fold (transportEvent ty listening nm src) evs h"

section \<open>Connecting\<close>

text \<open>
  A validated server configuration, with the fields the hub reads; \<open>c_json\<close> is
  \<open>JSON.stringify(config)\<close>.
\<close>

record ServerConfig =
  c_type :: TransportType
  c_disabled :: "bool option"
  c_watchPaths :: "string list option"
  c_args :: "string list option"
  c_json :: string

datatype DisableReason = MCP_DISABLED | SERVER_DISABLED

definition createPlaceholderConnection ::
  "string \<Rightarrow> ServerConfig \<Rightarrow> McpSource \<Rightarrow> DisableReason \<Rightarrow> McpConnection" where
  "createPlaceholderConnection nm cfg src reason =
     DisconnectedMcpConnection
       \<lparr>name = nm,
        config = c_json cfg,
        status = Disconnected,
        error = None,
        errorHistory = Some [],
        tools = None,
        resources = None,
        resourceTemplates = None,
        prompts = None,
        disabled = (if reason = SERVER_DISABLED then Some True else c_disabled cfg),
        source = Some src,
        instructions = None\<rparr>"

text \<open>
  \<open>isMcpEnabled\<close>: enabled when the provider is gone, otherwise
  \<open>state.mcpEnabled ?? true\<close>.
\<close>

definition isMcpEnabled :: "McpHub \<Rightarrow> bool" where
  "isMcpEnabled h =
     (if \<not> provider h then True
      else (case mcpEnabledState h of Some b \<Rightarrow> b | None \<Rightarrow> True))"

text \<open>
  \<open>setupFileWatcher\<close>; the two handles are the watchers \<open>chokidar.watch\<close> would
  return. The array fetched from the map is the array stored in it, so a \<open>push\<close>
  changes the stored array.
\<close>

definition setupFileWatcher :: "string \<Rightarrow> ServerConfig \<Rightarrow> nat \<times> nat \<Rightarrow> McpHub \<Rightarrow> McpHub" where
  "setupFileWatcher nm cfg ids h =
     (let fw = (if map_of (fileWatchers h) nm = None
                then AList.update nm [] (fileWatchers h)
                else fileWatchers h);
          watchers = (case map_of fw nm of Some ws \<Rightarrow> ws | None \<Rightarrow> [])
      in if c_type cfg = Stdio
         then
           (let watchers1 = (if (case c_watchPaths cfg of Some ps \<Rightarrow> length ps > 0
                                 | None \<Rightarrow> False)
                             then watchers @ [fst ids] else watchers);
                watchers2 = (if (case c_args cfg of
                                   Some as \<Rightarrow> find (sublist ''build/index.js'') as \<noteq> None
                                 | None \<Rightarrow> False)
                             then watchers1 @ [snd ids] else watchers1)
            in h\<lparr>fileWatchers := AList.update nm watchers2 fw\<rparr>)
         else h\<lparr>fileWatchers := fw\<rparr>)"

text \<open>
  What \<open>connectToServer\<close> reads from outside. \<open>ce_acquire\<close> is the outcome of
  everything between injecting the variables and having a started transport in hand
  (the statements before the connection is pushed); \<open>ce_handshake\<close> is the outcome
  of \<open>client.connect(transport)\<close>, on success the peer's capabilities and
  instructions; the four lists are the answers to the initial list requests, \<open>None\<close>
  when the request fails. The three lists of events are what the transport reports to the
  hub's handlers while the method awaits the start of the transport, the handshake, and
  the initial list requests. What the SDK does to the client and to the transport inside
  \<open>client.connect\<close> is not the hub's code; the hub meets it as these events.
\<close>

record ConnectEnv =
  ce_client :: Client
  ce_injectedJson :: string
  ce_watcherIds :: "nat \<times> nat"
  ce_acquire :: "exn + Transport"
  ce_startEvents :: "TransportEvent list"
  ce_handshake :: "exn + (ServerCapabilities option \<times> string option)"
  ce_connectEvents :: "TransportEvent list"
  ce_tools :: "string list option"
  ce_resources :: "string list option"
  ce_resourceTemplates :: "string list option"
  ce_prompts :: "string list option"
  ce_fetchEvents :: "TransportEvent list"
  ce_now :: int

text \<open>
  The four \<open>fetch...List\<close> methods: the empty list when no connected connection is
  found or when the request fails (the \<open>catch\<close> returns \<open>[]\<close>). The lists
  are kept as lists of names, and the line a failed request writes to the console is not
  recorded.
\<close>

definition fetchList :: "McpHub \<Rightarrow> string \<Rightarrow> McpSource option \<Rightarrow> string list option \<Rightarrow> string list" where
  "fetchList h serverName src resp =
     (case findConnection h serverName src of
        Some (ConnectedMcpConnection s c t) \<Rightarrow> (case resp of Some xs \<Rightarrow> xs | None \<Rightarrow> [])
      | Some (DisconnectedMcpConnection s) \<Rightarrow> []
      | None \<Rightarrow> [])"

text \<open>The \<open>catch\<close> block of \<open>connectToServer\<close>.\<close>

definition connectCatch :: "string \<Rightarrow> McpSource \<Rightarrow> exn \<Rightarrow> int \<Rightarrow> McpHub \<Rightarrow> (exn + unit) \<times> McpHub" where
  "connectCatch nm src e now h =
     (Inl e,
      h\<lparr>connections :=
          updateFirst (\<lambda>conn. name (server conn) = nm \<and> source (server conn) = Some src)
            (mapServer (\<lambda>s. appendErrorMessage (s\<lparr>status := Disconnected\<rparr>)
                               (errorMessage e) LvError now))
            (connections h)\<rparr>)"

text \<open>
  The server record of the connection pushed before the handshake;
  \<open>ce_injectedJson\<close> is \<open>JSON.stringify(configInjected)\<close>.
\<close>

definition connectingServer :: "string \<Rightarrow> ServerConfig \<Rightarrow> McpSource \<Rightarrow> ConnectEnv \<Rightarrow> McpServer" where
  "connectingServer nm cfg src env =
     \<lparr>name = nm,
      config = ce_injectedJson env,
      status = Connecting,
      error = None,
      errorHistory = Some [],
      tools = None,
      resources = None,
      resourceTemplates = None,
      prompts = None,
      disabled = c_disabled cfg,
      source = Some src,
      instructions = None\<rparr>"

text \<open>
  After the push, \<open>connection\<close> is the object just pushed, the last element of the
  list; assignments to its fields change that element.
\<close>

fun updateLast :: "('a \<Rightarrow> 'a) \<Rightarrow> 'a list \<Rightarrow> 'a list" where
  "updateLast f [] = []"
| "updateLast f [x] = [f x]"
| "updateLast f (x # y # ys) = x # updateLast f (y # ys)"

fun mapClient :: "(Client \<Rightarrow> Client) \<Rightarrow> McpConnection \<Rightarrow> McpConnection" where
  "mapClient f (ConnectedMcpConnection s c t) = ConnectedMcpConnection s (f c) t"
| "mapClient f (DisconnectedMcpConnection s) = DisconnectedMcpConnection s"

text \<open>
  \<open>connectToServer\<close> in two parts. The first part runs up to the \<open>try\<close> block:
  it deletes the existing connection of the name and source, registers the sanitized
  name, and either pushes a placeholder and returns (result \<open>True\<close>) or sets up the
  file watchers. The second part is the \<open>try\<close> block with its \<open>catch\<close>. The
  method awaits inside both parts and between them, and other calls of the hub can run
  at those points.
\<close>

definition connectPrepare ::
  "(string \<Rightarrow> string) \<Rightarrow> McpHub \<Rightarrow> string \<Rightarrow> ServerConfig \<Rightarrow> McpSource \<Rightarrow> nat \<times> nat
     \<Rightarrow> bool \<times> McpHub" where
  "connectPrepare sanitizeMcpName h nm cfg src ids =
     (let h1 = deleteConnection sanitizeMcpName nm (Some src) h;
          h2 = h1\<lparr>sanitizedNameRegistry := (sanitizedNameRegistry h1)(sanitizeMcpName nm \<mapsto> nm)\<rparr>
      in if \<not> isMcpEnabled h2
         then (True, h2\<lparr>connections := connections h2
                  @ [createPlaceholderConnection nm cfg src MCP_DISABLED]\<rparr>)
         else if c_disabled cfg = Some True
         then (True, h2\<lparr>connections := connections h2
                  @ [createPlaceholderConnection nm cfg src SERVER_DISABLED]\<rparr>)
         else (False, setupFileWatcher nm cfg ids h2))"

definition connectAttempt ::
  "McpHub \<Rightarrow> string \<Rightarrow> ServerConfig \<Rightarrow> McpSource \<Rightarrow> ConnectEnv \<Rightarrow> (exn + unit) \<times> McpHub" where
  "connectAttempt h nm cfg src env =
     (let h1 = transportEvents (c_type cfg) False nm src (ce_startEvents env) h
      in case ce_acquire env of
           Inl e \<Rightarrow> connectCatch nm src e (ce_now env) h1
         | Inr transport \<Rightarrow>
             (let h2 = h1\<lparr>connections := connections h1
                         @ [ConnectedMcpConnection (connectingServer nm cfg src env)
                              (ce_client env) transport]\<rparr>;
                  h3 = transportEvents (c_type cfg) (c_type cfg = Stdio) nm src
                         (ce_connectEvents env) h2
              in case ce_handshake env of
                   Inl e \<Rightarrow> connectCatch nm src e (ce_now env) h3
                 | Inr (caps, instr) \<Rightarrow>
                     (let h4 = h3\<lparr>connections :=
                                 updateLast
                                   (\<lambda>conn. mapClient (\<lambda>c. c\<lparr>serverCapabilities := caps\<rparr>)
                                      (mapServer (\<lambda>s. s\<lparr>status := Connected, error := Some [],
                                                        instructions := instr\<rparr>) conn))
                                   (connections h3)\<rparr>;
                          h5 = transportEvents (c_type cfg) (c_type cfg = Stdio) nm src
                                 (ce_fetchEvents env) h4;
                          h6 = h5\<lparr>connections :=
                                 updateLast (mapServer (\<lambda>s. s\<lparr>tools :=
                                     Some (fetchList h5 nm (Some src) (ce_tools env))\<rparr>))
                                   (connections h5)\<rparr>;
                          h7 = h6\<lparr>connections :=
                                 updateLast (mapServer (\<lambda>s. s\<lparr>resources :=
                                     Some (fetchList h6 nm (Some src) (ce_resources env))\<rparr>))
                                   (connections h6)\<rparr>;
                          h8 = h7\<lparr>connections :=
                                 updateLast (mapServer (\<lambda>s. s\<lparr>resourceTemplates :=
                                     Some (fetchList h7 nm (Some src) (ce_resourceTemplates env))\<rparr>))
                                   (connections h7)\<rparr>;
                          h9 = h8\<lparr>connections :=
                                 updateLast (mapServer (\<lambda>s. s\<lparr>prompts :=
                                     Some (fetchList h8 nm (Some src) (ce_prompts env))\<rparr>))
                                   (connections h8)\<rparr>
                      in (Inr (), h9))))"

definition connectToServer ::
  "(string \<Rightarrow> string) \<Rightarrow> McpHub \<Rightarrow> string \<Rightarrow> ServerConfig \<Rightarrow> McpSource \<Rightarrow> ConnectEnv
     \<Rightarrow> (exn + unit) \<times> McpHub" where
  "connectToServer sanitizeMcpName h nm cfg src env =
     (case connectPrepare sanitizeMcpName h nm cfg src (ce_watcherIds env) of
        (True, h') \<Rightarrow> (Inr (), h')
      | (False, h') \<Rightarrow> connectAttempt h' nm cfg src env)"

section \<open>Reconciling, restarting and disposing\<close>

text \<open>
  One entry of \<open>newServers\<close>: the server's name, the raw configuration (as the JSON
  text that \<open>deepEqual\<close> compares with the stored one), what
  \<open>validateServerConfig\<close> makes of it, and what the connection attempt reads from
  outside.
\<close>

record ServerEntry =
  ue_name :: string
  ue_rawJson :: string
  ue_validated :: "exn + ServerConfig"
  ue_watcherIds :: "nat \<times> nat"
  ue_env :: ConnectEnv

text \<open>The elements of a \<open>Set\<close> built from a list, in insertion order.\<close>

fun setOrder :: "'a list \<Rightarrow> 'a list" where
  "setOrder [] = []"
| "setOrder (x # xs) = x # setOrder (filter (\<lambda>y. y \<noteq> x) xs)"

definition deleteRemoved ::
  "(string \<Rightarrow> string) \<Rightarrow> McpSource \<Rightarrow> string list \<Rightarrow> string list \<Rightarrow> McpHub \<Rightarrow> McpHub" where
  "deleteRemoved sanitizeMcpName src newNames currentNames h =
     fold (\<lambda>nm h'. if nm \<notin> set newNames
                    then deleteConnection sanitizeMcpName nm (Some src) h' else h')
       currentNames h"

definition updateOne ::
  "(string \<Rightarrow> string) \<Rightarrow> McpSource \<Rightarrow> ServerEntry \<Rightarrow> McpHub \<Rightarrow> McpHub" where
  "updateOne sanitizeMcpName src e h =
     (let currentConnection = findConnection h (ue_name e) (Some src)
      in case ue_validated e of
           Inl err \<Rightarrow>
             emit [ConsoleError (ShowError
                    (''Invalid configuration for MCP server \"'' @ ue_name e @ ''\"'') err)] h
         | Inr validatedConfig \<Rightarrow>
             (case currentConnection of
                None \<Rightarrow>
                  (let h1 = (if c_disabled validatedConfig \<noteq> Some True
                             then setupFileWatcher (ue_name e) validatedConfig (ue_watcherIds e) h
                             else h)
                   in case connectToServer sanitizeMcpName h1 (ue_name e) validatedConfig src
                             (ue_env e) of
                        (Inl err, h2) \<Rightarrow>
                          emit [ConsoleError (ShowError
                                 (''Failed to connect to new MCP server '' @ ue_name e) err)] h2
                      | (Inr u, h2) \<Rightarrow> h2)
              | Some conn \<Rightarrow>
                  if config (server conn) \<noteq> ue_rawJson e
                  then
                    (let h1 = (if c_disabled validatedConfig \<noteq> Some True
                               then setupFileWatcher (ue_name e) validatedConfig (ue_watcherIds e) h
                               else h);
                         h2 = deleteConnection sanitizeMcpName (ue_name e) (Some src) h1
                     in case connectToServer sanitizeMcpName h2 (ue_name e) validatedConfig src
                               (ue_env e) of
                          (Inl err, h3) \<Rightarrow>
                            emit [ConsoleError (ShowError
                                   (''Failed to reconnect MCP server '' @ ue_name e) err)] h3
                        | (Inr u, h3) \<Rightarrow> h3)
                  else h))"

definition updateServerConnections ::
  "(string \<Rightarrow> string) \<Rightarrow> McpHub \<Rightarrow> ServerEntry list \<Rightarrow> McpSource \<Rightarrow> bool \<Rightarrow> NotifyOutcome
     \<Rightarrow> (exn + unit) \<times> McpHub" where
  "updateServerConnections sanitizeMcpName h newServers src manageConnectingState out =
     (let h1 = (if manageConnectingState then h\<lparr>isConnecting := True\<rparr> else h);
          h2 = removeAllFileWatchers h1;
          currentConnections =
            filter (\<lambda>conn. source (server conn) = Some src
                      \<or> (source (server conn) = None \<and> src = Global)) (connections h2);
          currentNames = setOrder (map (\<lambda>conn. name (server conn)) currentConnections);
          newNames = map ue_name newServers;
          h3 = deleteRemoved sanitizeMcpName src newNames currentNames h2;
          h4 = fold (updateOne sanitizeMcpName src) newServers h3
      in case notifyWebviewOfServerChanges out h4 of
           (Inl e, h5) \<Rightarrow> (Inl e, h5)
         | (Inr u, h5) \<Rightarrow>
             (Inr (), if manageConnectingState then h5\<lparr>isConnecting := False\<rparr> else h5))"

text \<open>
  The connection \<open>findConnection\<close> returns is the first one that satisfies this
  predicate; \<open>restartConnection\<close> assigns to its fields.
\<close>

definition foundBy :: "McpHub \<Rightarrow> string \<Rightarrow> McpSource option \<Rightarrow> McpConnection \<Rightarrow> bool" where
  "foundBy h serverName src conn =
     (case src of
        Some s \<Rightarrow> name (server conn) = serverName \<and> source (server conn) = Some s
      | None \<Rightarrow>
          if find (\<lambda>c. name (server c) = serverName \<and> source (server c) = Some Project)
               (connections h) \<noteq> None
          then name (server conn) = serverName \<and> source (server conn) = Some Project
          else name (server conn) = serverName
                 \<and> (source (server conn) = Some Global \<or> source (server conn) = None))"

text \<open>
  \<open>re_validated\<close> is what \<open>validateServerConfig\<close> makes of the stored
  configuration; the stored text is always an output of \<open>JSON.stringify\<close>, so
  \<open>JSON.parse\<close> succeeds on it. The two outcomes are those of the two calls of
  \<open>notifyWebviewOfServerChanges\<close>, which are outside every \<open>try\<close> block.
\<close>

record RestartEnv =
  re_validated :: "exn + ServerConfig"
  re_env :: ConnectEnv
  re_notify1 :: NotifyOutcome
  re_notify2 :: NotifyOutcome

text \<open>The body of \<open>if (config)\<close> after the first notification.\<close>

definition restartBody ::
  "(string \<Rightarrow> string) \<Rightarrow> McpHub \<Rightarrow> string \<Rightarrow> McpConnection \<Rightarrow> RestartEnv \<Rightarrow> McpHub" where
  "restartBody sanitizeMcpName h serverName conn env =
     (let h1 = deleteConnection sanitizeMcpName serverName (source (server conn))
                 (emit [Delay 500] h)
      in case re_validated env of
           Inl err \<Rightarrow>
             emit [ConsoleError (ShowError
                    (''Invalid configuration for MCP server \"'' @ serverName @ ''\"'') err)] h1
         | Inr validatedConfig \<Rightarrow>
             (case connectToServer sanitizeMcpName h1 serverName validatedConfig
                     (case source (server conn) of Some s \<Rightarrow> s | None \<Rightarrow> Global)
                     (re_env env) of
                (Inl err, h') \<Rightarrow>
                  emit [ConsoleError (ShowError
                         (''Invalid configuration for MCP server \"'' @ serverName @ ''\"'')
                         err)] h'
              | (Inr u, h') \<Rightarrow> emit [ShowInformation ''mcp:info.server_connected''] h'))"

definition restartConnection ::
  "(string \<Rightarrow> string) \<Rightarrow> McpHub \<Rightarrow> string \<Rightarrow> McpSource option \<Rightarrow> RestartEnv
     \<Rightarrow> (exn + unit) \<times> McpHub" where
  "restartConnection sanitizeMcpName h serverName src env =
     (let h1 = h\<lparr>isConnecting := True\<rparr>
      in if \<not> isMcpEnabled h1 then (Inr (), h1\<lparr>isConnecting := False\<rparr>)
         else
           (case (case findConnection h1 serverName src of
                    None \<Rightarrow> (Inr (), h1)
                  | Some conn \<Rightarrow>
                      if config (server conn) = [] then (Inr (), h1)
                      else
                        (let h2 = emit [ShowInformation ''mcp:info.server_restarting''] h1;
                             h3 = h2\<lparr>connections :=
                                     updateFirst (foundBy h2 serverName src)
                                       (mapServer (\<lambda>s. s\<lparr>status := Connecting,
                                                          error := Some []\<rparr>))
                                       (connections h2)\<rparr>
                         in case notifyWebviewOfServerChanges (re_notify1 env) h3 of
                              (Inl e, h4) \<Rightarrow> (Inl e, h4)
                            | (Inr u, h4) \<Rightarrow>
                                (Inr (), restartBody sanitizeMcpName h4 serverName conn env))) of
              (Inl e, h5) \<Rightarrow> (Inl e, h5)
            | (Inr u, h5) \<Rightarrow>
                (case notifyWebviewOfServerChanges (re_notify2 env) h5 of
                   (Inl e, h6) \<Rightarrow> (Inl e, h6)
                 | (Inr u, h6) \<Rightarrow> (Inr (), h6\<lparr>isConnecting := False\<rparr>))))"

text \<open>
  \<open>dispose\<close>. The loop runs over the array that \<open>this.connections\<close> holds when
  the loop starts; \<open>deleteConnection\<close> assigns a new array to the field and does not
  change the one being iterated.
\<close>

definition dispose :: "(string \<Rightarrow> string) \<Rightarrow> McpHub \<Rightarrow> McpHub" where
  "dispose sanitizeMcpName h =
     (if isDisposed h then h
      else
        (let h1 = h\<lparr>isDisposed := True,
                    activeProgressTokens := Map.empty,
                    pendingRequests := Map.empty,
                    activeTasks := Map.empty,
                    resourceSubscriptions := Map.empty\<rparr>;
             h2 = (emit (map (\<lambda>kv. ClearTimeout (snd kv)) (configChangeDebounceTimers h1)) h1)
                    \<lparr>configChangeDebounceTimers := []\<rparr>;
             h3 = (case flagResetTimer h2 of
                     Some timer \<Rightarrow> (emit [ClearTimeout timer] h2)\<lparr>flagResetTimer := None\<rparr>
                   | None \<Rightarrow> h2);
             h4 = removeAllFileWatchers (h3\<lparr>isProgrammaticUpdate := False\<rparr>);
             h5 = fold (\<lambda>conn h'. deleteConnection sanitizeMcpName (name (server conn))
                                     (source (server conn)) h')
                    (connections h4) h4;
             h6 = h5\<lparr>connections := []\<rparr>;
             h7 = (case settingsWatcher h6 of
                     Some w \<Rightarrow> (emit [Dispose w] h6)\<lparr>settingsWatcher := None\<rparr>
                   | None \<Rightarrow> h6);
             h8 = (case projectMcpWatcher h7 of
                     Some w \<Rightarrow> (emit [Dispose w] h7)\<lparr>projectMcpWatcher := None\<rparr>
                   | None \<Rightarrow> h7)
         in emit (map Dispose (disposables h8)) h8))"

section \<open>Sequences of operations\<close>

datatype RegistryOp =
    OpConnect string ServerConfig McpSource ConnectEnv
  | OpDelete string "McpSource option"
  | OpUpdate "ServerEntry list" McpSource bool NotifyOutcome
  | OpRestart string "McpSource option" RestartEnv

fun applyRegistryOp :: "(string \<Rightarrow> string) \<Rightarrow> RegistryOp \<Rightarrow> McpHub \<Rightarrow> McpHub" where
  "applyRegistryOp sn (OpConnect nm cfg src env) h = snd (connectToServer sn h nm cfg src env)"
| "applyRegistryOp sn (OpDelete nm src) h = deleteConnection sn nm src h"
| "applyRegistryOp sn (OpUpdate newServers src manage out) h =
     snd (updateServerConnections sn h newServers src manage out)"
| "applyRegistryOp sn (OpRestart nm src env) h = snd (restartConnection sn h nm src env)"

definition connectionKeys :: "McpHub \<Rightarrow> (string \<times> McpSource option) list" where
  "connectionKeys h = map (\<lambda>conn. (name (server conn), source (server conn))) (connections h)"

text \<open>The operations on one task's record, each with what it reads from outside.\<close>

datatype TaskOp =
    StatusNotification string TaskStatus "string option" "int option" int
  | CancelTask string string "McpSource option" "exn + Task" int
  | GetTask string string "McpSource option" "exn + Task" int

fun applyTaskOp :: "TaskOp \<Rightarrow> McpHub \<Rightarrow> McpHub" where
  "applyTaskOp (StatusNotification tid st m p now) h = snd (taskStatusHandler tid st m p now h)"
| "applyTaskOp (CancelTask serverName tid src resp now) h =
     snd (cancelTask h serverName tid src resp now)"
| "applyTaskOp (GetTask serverName tid src resp now) h =
     snd (getTask h serverName tid src resp now)"

text \<open>The hub as the field initialisers of the class leave it.\<close>

definition newHub :: "bool \<Rightarrow> bool option \<Rightarrow> McpHub" where
  "newHub prov enabled =
     \<lparr>provider = prov,
      mcpEnabledState = enabled,
      disposables = [],
      settingsWatcher = None,
      fileWatchers = [],
      projectMcpWatcher = None,
      isDisposed = False,
      connections = [],
      isConnecting = False,
      configChangeDebounceTimers = [],
      isProgrammaticUpdate = False,
      flagResetTimer = None,
      sanitizedNameRegistry = Map.empty,
      activeProgressTokens = Map.empty,
      pendingRequests = Map.empty,
      activeTasks = Map.empty,
      resourceSubscriptions = Map.empty,
      trace = []\<rparr>"

section \<open>Concrete hubs\<close>

text \<open>
  A hub with one connected server \<open>srv\<close> whose peer declares task support, and the
  states reached from it by calls of the hub's own methods. They serve as inputs for
  the closed statements below.
\<close>

definition exClient :: Client where
  "exClient = \<lparr>clientId = 1, serverCapabilities = Some \<lparr>capTasks = True\<rparr>,
               clientCloseThrows = False\<rparr>"

definition exClientNoTasks :: Client where
  "exClientNoTasks = \<lparr>clientId = 2, serverCapabilities = Some \<lparr>capTasks = False\<rparr>,
                      clientCloseThrows = False\<rparr>"

definition exTransport :: Transport where
  "exTransport = \<lparr>transportId = 1, transportCloseThrows = False\<rparr>"

definition exServer :: McpServer where
  "exServer = \<lparr>name = ''srv'', config = ''{}'', status = Connected, error = Some [],
               errorHistory = Some [], tools = Some [], resources = Some [],
               resourceTemplates = Some [], prompts = Some [], disabled = None,
               source = Some Global, instructions = None\<rparr>"

definition exHub :: McpHub where
  "exHub = (newHub False None)
     \<lparr>connections := [ConnectedMcpConnection exServer exClient exTransport]\<rparr>"

definition exHubNoTasks :: McpHub where
  "exHubNoTasks = (newHub False None)
     \<lparr>connections := [ConnectedMcpConnection exServer exClientNoTasks exTransport]\<rparr>"

definition exTask :: "TaskStatus \<Rightarrow> Task" where
  "exTask st = \<lparr>taskId = ''task-1'', taskStatus = st, statusMessage = None,
                pollInterval = Some 10\<rparr>"

definition exOptions :: CallToolOptions where
  "exOptions = \<lparr>o_source = Some Global, o_ttl = Some 50, o_progressCallback = Some 7\<rparr>"

definition exCallEnv :: "TaskStatus \<Rightarrow> CallToolEnv" where
  "exCallEnv st = \<lparr>e_uuid = ''uuid-1'', e_plain = Inr ''plain'',
                   e_augmented = Inr (CreateTaskResult (exTask st)),
                   e_createdAt = 0, e_updatedAt = 0\<rparr>"

text \<open>
  \<open>exTracked st\<close>: after a task-augmented call with \<open>ttl = 50\<close> and a progress
  callback, answered by a task in status \<open>st\<close>, and the registration of a
  cancellable request.
\<close>

definition exTracked :: "TaskStatus \<Rightarrow> McpHub" where
  "exTracked st =
     snd (registerCancellableRequest ''srv'' (NumId 1) 9
            (snd (callToolAsTask exHub ''srv'' ''build'' ''{}'' exOptions (exCallEnv st))))"

definition exRegistered :: McpHub where
  "exRegistered = snd (generateProgressToken ''srv'' (Some 7) ''uuid-1'' (newHub False None))"

definition exAfterFive :: McpHub where
  "exAfterFive = snd (progressHandler (StrId ''uuid-1'') 5 None None exRegistered)"

definition exPollOptions :: PollOptions where
  "exPollOptions = \<lparr>po_source = Some Global, po_timeoutMs = None, po_onStatusChange = None\<rparr>"

text \<open>A turn of the polling loop at time \<open>t\<close> in which the peer answers with the task in status \<open>st\<close>.\<close>

definition exStep :: "int \<Rightarrow> TaskStatus \<Rightarrow> PollStep" where
  "exStep t st = \<lparr>ps_clock = t, ps_resp = Inr (exTask st), ps_updatedAt = t\<rparr>"

definition exConfig :: ServerConfig where
  "exConfig = \<lparr>c_type = Stdio, c_disabled = None, c_watchPaths = None,
               c_args = Some [''server.js''], c_json = ''{}''\<rparr>"

definition exNewTransport :: "nat \<Rightarrow> Transport" where
  "exNewTransport i = \<lparr>transportId = i, transportCloseThrows = False\<rparr>"

text \<open>
  A connection attempt with a new client of a given handle, a given outcome of the
  transport acquisition, given events during the handshake and a given outcome of the
  handshake; the request for the tool list fails.
\<close>

definition exConnectEnv ::
  "nat \<Rightarrow> exn + Transport \<Rightarrow> TransportEvent list
     \<Rightarrow> exn + (ServerCapabilities option \<times> string option) \<Rightarrow> ConnectEnv" where
  "exConnectEnv i acq evs hs =
     \<lparr>ce_client = \<lparr>clientId = i, serverCapabilities = None, clientCloseThrows = False\<rparr>,
      ce_injectedJson = ''{}'',
      ce_watcherIds = (11, 12),
      ce_acquire = acq,
      ce_startEvents = [],
      ce_handshake = hs,
      ce_connectEvents = evs,
      ce_tools = None,
      ce_resources = Some [],
      ce_resourceTemplates = Some [],
      ce_prompts = Some [],
      ce_fetchEvents = [],
      ce_now = 100\<rparr>"

text \<open>
  A handshake that fails while the transport reports the error and its closing to the
  hub's handlers.
\<close>

definition exFailedHandshake :: ConnectEnv where
  "exFailedHandshake =
     exConnectEnv 5 (Inr (exNewTransport 5))
       [OnError (Error ''ECONNREFUSED'') 99 PostOk, OnClose PostOk]
       (Inl (Error ''ECONNREFUSED''))"

text \<open>
  A server process that cannot be spawned: \<open>transport.start()\<close> rejects, and the
  transport reports the error to the hub's handler.
\<close>

definition exFailedAcquisition :: ConnectEnv where
  "exFailedAcquisition =
     (exConnectEnv 5 (Inl (Error ''ENOENT'')) [] (Inl (Error ''unused'')))
       \<lparr>ce_startEvents := [OnError (Error ''ENOENT'') 99 PostOk]\<rparr>"

definition exConnected :: "nat \<Rightarrow> ConnectEnv" where
  "exConnected i = exConnectEnv i (Inr (exNewTransport i)) [] (Inr (None, None))"

text \<open>Connecting \<open>srv\<close> twice and deleting a server that is not there.\<close>

definition exOps :: "RegistryOp list" where
  "exOps =
     [OpConnect ''srv'' exConfig Global (exConnected 5),
      OpConnect ''srv'' exConfig Global (exConnected 6),
      OpDelete ''other'' None]"

text \<open>
  Two calls of \<open>connectToServer\<close> for \<open>srv\<close> that overlap: the second call runs
  its first part while the first call awaits its transport; then the first call runs its
  \<open>try\<close> block, then the second.
\<close>

definition exOverlap :: McpHub where
  "exOverlap =
     snd (connectAttempt
            (snd (connectAttempt
                    (snd (connectPrepare id
                            (snd (connectPrepare id (newHub False None) ''srv'' exConfig Global
                                    (11, 12)))
                            ''srv'' exConfig Global (13, 14)))
                    ''srv'' exConfig Global (exConnected 5)))
            ''srv'' exConfig Global (exConnected 6))"

section \<open>Notions used in the statements\<close>

text \<open>
  The connections that the delete-first step of \<open>connectToServer\<close> leaves in the
  list.
\<close>

definition base :: "string \<Rightarrow> McpSource \<Rightarrow> McpHub \<Rightarrow> McpConnection list" where
  "base nm src h = filter (\<lambda>c. \<not> selected nm (Some src) c) (connections h)"

text \<open>The name and source of a connection.\<close>

definition connKey :: "McpConnection \<Rightarrow> string \<times> McpSource option" where
  "connKey conn = (name (server conn), source (server conn))"

text \<open>The status stored for a task id, if the task is tracked.\<close>

definition storedStatus :: "McpHub \<Rightarrow> string \<Rightarrow> TaskStatus option" where
  "storedStatus h tid = map_option t_status (activeTasks h tid)"

text \<open>
  An operation is quiet for a task id and a status when it brings no other status to
  that task's record: it addresses another task, or it fails (the server is not
  connected, or the peer rejects the request), or the status it carries (for
  \<open>cancelTask\<close>, \<open>cancelled\<close>) is the stored one.
\<close>

fun quiet :: "McpHub \<Rightarrow> string \<Rightarrow> TaskStatus \<Rightarrow> TaskOp \<Rightarrow> bool" where
  "quiet h tid s (StatusNotification tid' st m p now) = (tid' \<noteq> tid \<or> st = s)"
| "quiet h tid s (CancelTask serverName tid' src resp now) =
     (tid' \<noteq> tid \<or> connectedClient h serverName src = None \<or> isl resp \<or> s = Cancelled)"
| "quiet h tid s (GetTask serverName tid' src resp now) =
     (tid' \<noteq> tid \<or> connectedClient h serverName src = None
      \<or> (case resp of
            Inl e \<Rightarrow> True
          | Inr result \<Rightarrow>
              (case taskMember result of None \<Rightarrow> True | Some task \<Rightarrow> taskStatus task = s)))"

text \<open>The number of \<open>tasks/result\<close> requests sent for a task id so far.\<close>

fun isResultFetch :: "string \<Rightarrow> effect \<Rightarrow> bool" where
  "isResultFetch tid (PeerRequest c (TasksResult t)) = (t = tid)"
| "isResultFetch tid e = False"

definition resultFetches :: "string \<Rightarrow> McpHub \<Rightarrow> nat" where
  "resultFetches tid h = length (filter (isResultFetch tid) (trace h))"

text \<open>The progress token recorded with a task, if any.\<close>

definition tokenOf :: "McpHub \<Rightarrow> string \<Rightarrow> jsid option" where
  "tokenOf h tid = (case activeTasks h tid of None \<Rightarrow> None | Some td \<Rightarrow> t_progressToken td)"

section \<open>Basic facts\<close>

lemma emit_simps [simp]:
  "trace (emit es h) = trace h @ es"
  "connections (emit es h) = connections h"
  "pendingRequests (emit es h) = pendingRequests h"
  "activeTasks (emit es h) = activeTasks h"
  "activeProgressTokens (emit es h) = activeProgressTokens h"
  "isDisposed (emit es h) = isDisposed h"
  "provider (emit es h) = provider h"
  "fileWatchers (emit es h) = fileWatchers h"
  "mcpEnabledState (emit es h) = mcpEnabledState h"
  by (simp_all add: emit_def)

lemma removeFileWatchersForServer_simps [simp]:
  "connections (removeFileWatchersForServer nm h) = connections h"
  "pendingRequests (removeFileWatchersForServer nm h) = pendingRequests h"
  "activeTasks (removeFileWatchersForServer nm h) = activeTasks h"
  "activeProgressTokens (removeFileWatchersForServer nm h) = activeProgressTokens h"
  "provider (removeFileWatchersForServer nm h) = provider h"
  "mcpEnabledState (removeFileWatchersForServer nm h) = mcpEnabledState h"
  "isDisposed (removeFileWatchersForServer nm h) = isDisposed h"
  by (simp_all add: removeFileWatchersForServer_def split: option.splits)

lemma kept_iff: "kept nm src conn = (\<not> selected nm src conn)"
  by (auto simp: kept_def selected_def split: option.splits)

lemma deleteConnection_connections:
  "connections (deleteConnection sn nm src h)
     = filter (\<lambda>c. \<not> selected nm src c) (connections h)"
  by (simp add: deleteConnection_def Let_def kept_iff [abs_def])

lemma deleteConnection_trackers:
  "pendingRequests (deleteConnection sn nm src h) = pendingRequests h"
  "activeTasks (deleteConnection sn nm src h) = activeTasks h"
  "activeProgressTokens (deleteConnection sn nm src h) = activeProgressTokens h"
  "provider (deleteConnection sn nm src h) = provider h"
  "mcpEnabledState (deleteConnection sn nm src h) = mcpEnabledState h"
  "isDisposed (deleteConnection sn nm src h) = isDisposed h"
  by (simp_all add: deleteConnection_def Let_def)


lemmas exTracked_unfold =
  exTracked_def registerCancellableRequest_def callToolAsTask_def connectedClient_def
  findConnection_def exHub_def exOptions_def exCallEnv_def exClient_def exServer_def
  tasksDeclared_def generateProgressToken_def Let_def emit_def newHub_def exTask_def

lemma exTracked_connections:
  "connections (exTracked st) = [ConnectedMcpConnection exServer exClient exTransport]"
  by (simp add: exTracked_unfold)

lemma exTracked_tasks:
  "activeTasks (exTracked st) ''task-1'' =
     Some \<lparr>t_serverName = ''srv'', t_source = Some Global, t_status = st,
           t_progressToken = Some (StrId ''uuid-1''), t_pollInterval = Some 10,
           t_message = None, t_createdAt = 0, t_updatedAt = 0\<rparr>"
  by (simp add: exTracked_unfold)


lemma exTracked_pending:
  "pendingRequests (exTracked st) (NumId 1) = Some \<lparr>r_serverName = ''srv'', r_controller = 9\<rparr>"
  "pendingRequests (exTracked st) (NumId 2) = None"
  by (simp_all add: exTracked_unfold)

lemma exTracked_trace:
  "trace (exTracked st) =
     [PeerRequest 1 (ToolsCallTask ''build'' ''{}'' (Some 50) (Some (StrId ''uuid-1'')))]"
  by (simp add: exTracked_unfold)


lemma exTracked_client:
  "connectedClient (exTracked st) ''srv'' (Some Global) = Some exClient"
  by (simp add: connectedClient_def findConnection_def exTracked_connections exServer_def)

section \<open>Progress notifications\<close>

text \<open>
  C5. For a known progress token, a progress value below the last recorded one logs one
  regression warning, is stored nevertheless, and is passed unchanged to the registered
  callback (and to the webview when the provider is there); the handler returns normally.
\<close>

theorem progress_regression:
  assumes "activeProgressTokens h tok = Some td" and "p < p_lastProgress td"
  shows "fst (progressHandler tok p tot msg h) = Inr ()
    \<and> trace (snd (progressHandler tok p tot msg h)) =
        trace h
          @ [ConsoleWarn (NonMonotonicProgress tok p (p_lastProgress td))]
          @ (case p_callback td of Some cb \<Rightarrow> [InvokeCallback cb p tot msg] | None \<Rightarrow> [])
          @ (if provider h then [PostMessage (McpProgress (p_serverName td) tok p tot msg)]
             else [])
    \<and> activeProgressTokens (snd (progressHandler tok p tot msg h)) tok
        = Some (td\<lparr>p_lastProgress := p\<rparr>)"
  using assms by (simp add: progressHandler_def Let_def emit_def split: option.splits)

lemma exAfterFive_token:
  "activeProgressTokens exAfterFive (StrId ''uuid-1'')
     = Some \<lparr>p_serverName = ''srv'', p_callback = Some 7, p_lastProgress = 5\<rparr>"
  by (simp add: exAfterFive_def exRegistered_def progressHandler_def generateProgressToken_def
      Let_def emit_def newHub_def)

lemma exAfterFive_trace: "trace exAfterFive = [InvokeCallback 7 5 None None]"
  by (simp add: exAfterFive_def exRegistered_def progressHandler_def generateProgressToken_def
      Let_def emit_def newHub_def)

lemma exAfterFive_provider: "\<not> provider exAfterFive"
  by (simp add: exAfterFive_def exRegistered_def progressHandler_def generateProgressToken_def
      Let_def emit_def newHub_def)

text \<open>Registering a token, then progress 5, then progress 3.\<close>

theorem progress_regression_witness:
  "activeProgressTokens exAfterFive (StrId ''uuid-1'')
      = Some \<lparr>p_serverName = ''srv'', p_callback = Some 7, p_lastProgress = 5\<rparr>
   \<and> (3 :: real) < 5
   \<and> trace (snd (progressHandler (StrId ''uuid-1'') 3 None None exAfterFive))
      = [InvokeCallback 7 5 None None,
         ConsoleWarn (NonMonotonicProgress (StrId ''uuid-1'') 3 5),
         InvokeCallback 7 3 None None]
   \<and> map_option p_lastProgress
        (activeProgressTokens (snd (progressHandler (StrId ''uuid-1'') 3 None None exAfterFive))
           (StrId ''uuid-1''))
      = Some 3"
  using progress_regression [of exAfterFive "StrId ''uuid-1''"
      "\<lparr>p_serverName = ''srv'', p_callback = Some 7, p_lastProgress = 5\<rparr>" 3 None None]
  by (simp add: exAfterFive_token exAfterFive_trace exAfterFive_provider)

section \<open>Cancellation notifications\<close>

text \<open>
  C6. A cancellation notification for a request id that has no entry in the
  pending-request map returns normally and changes nothing but the console: the hub
  afterwards is the hub before with one debug line appended to the trace, so the
  pending-request map, the progress-token map and the task map are the same.
\<close>

theorem cancellation_unknown_noop:
  assumes "pendingRequests h rid = None"
  shows "fst (cancellationHandler (Some rid) reason h) = Inr ()
    \<and> snd (cancellationHandler (Some rid) reason h)
        = h\<lparr>trace := trace h @ [ConsoleDebug (IgnoringCancellation rid)]\<rparr>
    \<and> pendingRequests (snd (cancellationHandler (Some rid) reason h)) = pendingRequests h
    \<and> activeProgressTokens (snd (cancellationHandler (Some rid) reason h))
        = activeProgressTokens h
    \<and> activeTasks (snd (cancellationHandler (Some rid) reason h)) = activeTasks h"
  using assms by (simp add: cancellationHandler_def emit_def)

theorem cancellation_unknown_noop_witness:
  "pendingRequests (exTracked Working) (NumId 2) = None
   \<and> fst (cancellationHandler (Some (NumId 2)) None (exTracked Working)) = Inr ()
   \<and> pendingRequests (snd (cancellationHandler (Some (NumId 2)) None (exTracked Working)))
       = pendingRequests (exTracked Working)
   \<and> activeProgressTokens (snd (cancellationHandler (Some (NumId 2)) None (exTracked Working)))
       = activeProgressTokens (exTracked Working)
   \<and> activeTasks (snd (cancellationHandler (Some (NumId 2)) None (exTracked Working)))
       = activeTasks (exTracked Working)"
  using cancellation_unknown_noop [of "exTracked Working" "NumId 2" None]
  by (simp add: exTracked_pending)

section \<open>Calling a tool on a peer without task support\<close>

text \<open>
  C7. When the server found is connected and its peer did not declare \<open>tasks\<close>,
  \<open>callToolAsTask\<close> sends one plain \<open>tools/call\<close> request and returns what that
  request returns (the plain result, or the error the request throws); the hub is
  otherwise unchanged, so no task record is created and no progress token is issued.
\<close>

theorem callToolAsTask_without_task_support:
  assumes "connectedClient h serverName (o_source opts) = Some cl"
    and "\<not> tasksDeclared cl"
  shows "fst (callToolAsTask h serverName toolName args opts env)
        = (case e_plain env of Inl e \<Rightarrow> Inl e | Inr result \<Rightarrow> Inr (ToolResult result))
    \<and> snd (callToolAsTask h serverName toolName args opts env)
        = h\<lparr>trace := trace h @ [PeerRequest (clientId cl) (ToolsCall toolName args)]\<rparr>
    \<and> activeTasks (snd (callToolAsTask h serverName toolName args opts env)) = activeTasks h
    \<and> activeProgressTokens (snd (callToolAsTask h serverName toolName args opts env))
        = activeProgressTokens h"
  using assms by (simp add: callToolAsTask_def Let_def emit_def split: sum.splits)

lemma exHubNoTasks_client:
  "connectedClient exHubNoTasks ''srv'' (Some Global) = Some exClientNoTasks"
  by (simp add: connectedClient_def findConnection_def exHubNoTasks_def exServer_def newHub_def)

theorem callToolAsTask_without_task_support_witness:
  "connectedClient exHubNoTasks ''srv'' (o_source exOptions) = Some exClientNoTasks
   \<and> \<not> tasksDeclared exClientNoTasks
   \<and> fst (callToolAsTask exHubNoTasks ''srv'' ''build'' ''{}'' exOptions (exCallEnv Working))
       = Inr (ToolResult ''plain'')
   \<and> activeTasks (snd (callToolAsTask exHubNoTasks ''srv'' ''build'' ''{}'' exOptions
                         (exCallEnv Working))) = activeTasks exHubNoTasks
   \<and> activeProgressTokens (snd (callToolAsTask exHubNoTasks ''srv'' ''build'' ''{}'' exOptions
                                  (exCallEnv Working))) = activeProgressTokens exHubNoTasks"
proof -
  have c: "connectedClient exHubNoTasks ''srv'' (o_source exOptions) = Some exClientNoTasks"
    by (simp add: exOptions_def exHubNoTasks_client)
  have n: "\<not> tasksDeclared exClientNoTasks"
    by (simp add: tasksDeclared_def exClientNoTasks_def)
  show ?thesis
    using callToolAsTask_without_task_support [OF c n, of "''build''" "''{}''" "exCallEnv Working"]
      c n
    by (simp add: exCallEnv_def)
qed

section \<open>Disposal\<close>

lemma fold_deleteConnection_isDisposed:
  "isDisposed (fold (\<lambda>conn h'. deleteConnection sn (name (server conn))
                                  (source (server conn)) h') cs h)
     = isDisposed h"
  by (induction cs arbitrary: h) (simp_all add: deleteConnection_trackers)

lemma removeAllFileWatchers_isDisposed [simp]:
  "isDisposed (removeAllFileWatchers h) = isDisposed h"
  by (simp add: removeAllFileWatchers_def)

lemma isDisposed_dispose: "isDisposed (dispose sn h)"
  by (simp add: dispose_def Let_def fold_deleteConnection_isDisposed split: option.splits)

text \<open>
  C10. \<open>dispose\<close> sets the \<open>isDisposed\<close> flag, and on a hub whose flag is set it
  returns at once and changes nothing, whatever the maps, connections and watchers hold;
  so a second \<open>dispose\<close> leaves the hub as the first one left it, trace of effects
  included.
\<close>

theorem dispose_idempotent:
  "isDisposed (dispose sn h)
   \<and> dispose sn (dispose sn h) = dispose sn h
   \<and> (isDisposed h \<longrightarrow> dispose sn h = h)"
proof (intro conjI impI)
  show d: "isDisposed (dispose sn h)" by (rule isDisposed_dispose)
  show "dispose sn (dispose sn h) = dispose sn h"
    using d by (subst dispose_def) simp
  show "dispose sn h = h" if "isDisposed h"
    using that by (simp add: dispose_def)
qed

lemma fold_deleteConnection_activeTasks:
  "activeTasks (fold (\<lambda>conn h'. deleteConnection sn (name (server conn))
                                  (source (server conn)) h') cs h)
     = activeTasks h"
  by (induction cs arbitrary: h) (simp_all add: deleteConnection_trackers)

lemma dispose_clears:
  assumes "\<not> isDisposed h"
  shows "activeTasks (dispose sn h) = Map.empty" and "connections (dispose sn h) = []"
  using assms
  by (simp_all add: dispose_def Let_def fold_deleteConnection_activeTasks
      removeAllFileWatchers_def split: option.splits)

lemma exTracked_isDisposed: "\<not> isDisposed (exTracked st)"
  by (simp add: exTracked_unfold)

theorem dispose_idempotent_witness:
  "isDisposed (dispose id (exTracked Working))
   \<and> dispose id (dispose id (exTracked Working)) = dispose id (exTracked Working)
   \<and> activeTasks (dispose id (exTracked Working)) ''task-1'' = None
   \<and> connections (dispose id (exTracked Working)) = []"
  using dispose_idempotent [of id "exTracked Working"]
    dispose_idempotent [of id "dispose id (exTracked Working)"]
  by (simp add: dispose_clears exTracked_isDisposed)

section \<open>Deleting a connection\<close>





section \<open>The stored status of a task\<close>

lemma applyTaskOp_connections: "connections (applyTaskOp op h) = connections h"
  by (cases op)
    (auto simp: taskStatusHandler_def cancelTask_def getTask_def Let_def
      split: option.splits sum.splits)

lemma connectedClient_cong:
  "connections h' = connections h \<Longrightarrow> connectedClient h' sn src = connectedClient h sn src"
  by (simp add: connectedClient_def findConnection_def cong: option.case_cong)

lemma quiet_cong: "connections h' = connections h \<Longrightarrow> quiet h' tid s op = quiet h tid s op"
  using connectedClient_cong [of h' h] by (cases op) simp_all

lemma quiet_step:
  assumes "storedStatus h tid = Some s" and "quiet h tid s op"
  shows "storedStatus (applyTaskOp op h) tid = Some s"
proof (cases op)
  case (StatusNotification tid' st m p now)
  with assms show ?thesis
    by (auto simp: storedStatus_def taskStatusHandler_def Let_def split: option.splits)
next
  case (CancelTask serverName tid' src resp now)
  with assms show ?thesis
    by (auto simp: storedStatus_def cancelTask_def Let_def split: option.splits sum.splits)
next
  case (GetTask serverName tid' src resp now)
  with assms show ?thesis
    by (auto simp: storedStatus_def getTask_def Let_def split: option.splits sum.splits)
qed

lemma quiet_fold:
  assumes "storedStatus h tid = Some s" and "list_all (quiet h tid s) ops"
  shows "storedStatus (fold applyTaskOp ops h) tid = Some s"
  using assms
proof (induction ops arbitrary: h)
  case Nil
  then show ?case by simp
next
  case (Cons op ops)
  have c: "connections (applyTaskOp op h) = connections h" by (rule applyTaskOp_connections)
  from Cons.prems have q: "quiet h tid s op" and qs: "list_all (quiet h tid s) ops" by simp_all
  have s1: "storedStatus (applyTaskOp op h) tid = Some s"
    using Cons.prems(1) q by (rule quiet_step)
  have "list_all (quiet (applyTaskOp op h) tid s) ops"
    using qs quiet_cong [OF c] by (simp add: list_all_iff)
  from Cons.IH [OF s1 this] show ?case by simp
qed

text \<open>
  C2 (as amended). The stored status of a tracked task stays what it is under every
  sequence of operations that are quiet for it: status notifications that address another
  task or carry the stored status, and \<open>cancelTask\<close> and \<open>getTask\<close> calls that
  address another task, or fail (the server is not connected, or the peer rejects the
  request), or bring the stored status. Being terminal does not protect it: a status
  notification for a tracked task stores the status it carries, and a \<open>cancelTask\<close>
  that the peer accepts stores \<open>cancelled\<close>, whatever was stored before.
\<close>

theorem stored_status_follows_peer:
  "(storedStatus h tid = Some s \<and> list_all (quiet h tid s) ops
      \<longrightarrow> storedStatus (fold applyTaskOp ops h) tid = Some s)
   \<and> (activeTasks h tid \<noteq> None
      \<longrightarrow> storedStatus (snd (taskStatusHandler tid st m p now h)) tid = Some st)
   \<and> (activeTasks h tid \<noteq> None \<and> connectedClient h serverName src \<noteq> None
      \<longrightarrow> storedStatus (snd (cancelTask h serverName tid src (Inr answer) now)) tid
            = Some Cancelled)"
proof (intro conjI impI)
  assume "storedStatus h tid = Some s \<and> list_all (quiet h tid s) ops"
  then show "storedStatus (fold applyTaskOp ops h) tid = Some s"
    using quiet_fold by blast
next
  assume "activeTasks h tid \<noteq> None"
  then show "storedStatus (snd (taskStatusHandler tid st m p now h)) tid = Some st"
    by (auto simp: storedStatus_def taskStatusHandler_def Let_def)
next
  assume "activeTasks h tid \<noteq> None \<and> connectedClient h serverName src \<noteq> None"
  then show "storedStatus (snd (cancelTask h serverName tid src (Inr answer) now)) tid
            = Some Cancelled"
    by (auto simp: storedStatus_def cancelTask_def Let_def)
qed

text \<open>
  Four operations that are quiet for the completed task \<open>task-1\<close>: a notification
  for another task, a cancellation the peer rejects, a cancellation through a server that
  is not connected, and a notification that carries \<open>completed\<close>.
\<close>

theorem stored_status_follows_peer_witness:
  "storedStatus (exTracked Completed) ''task-1'' = Some Completed
   \<and> list_all (quiet (exTracked Completed) ''task-1'' Completed)
        [StatusNotification ''task-2'' Working None None 5,
         CancelTask ''srv'' ''task-1'' (Some Global) (Inl (McpError InvalidRequest ''terminal'')) 6,
         CancelTask ''gone'' ''task-1'' (Some Global) (Inr (exTask Cancelled)) 7,
         StatusNotification ''task-1'' Completed None None 8]
   \<and> storedStatus
        (fold applyTaskOp
           [StatusNotification ''task-2'' Working None None 5,
            CancelTask ''srv'' ''task-1'' (Some Global) (Inl (McpError InvalidRequest ''terminal'')) 6,
            CancelTask ''gone'' ''task-1'' (Some Global) (Inr (exTask Cancelled)) 7,
            StatusNotification ''task-1'' Completed None None 8]
           (exTracked Completed)) ''task-1''
       = Some Completed"
proof -
  have s: "storedStatus (exTracked Completed) ''task-1'' = Some Completed"
    by (simp add: storedStatus_def exTracked_tasks)
  have g: "connectedClient (exTracked Completed) ''gone'' (Some Global) = None"
    by (simp add: connectedClient_def findConnection_def exTracked_connections exServer_def)
  have q: "list_all (quiet (exTracked Completed) ''task-1'' Completed)
        [StatusNotification ''task-2'' Working None None 5,
         CancelTask ''srv'' ''task-1'' (Some Global) (Inl (McpError InvalidRequest ''terminal'')) 6,
         CancelTask ''gone'' ''task-1'' (Some Global) (Inr (exTask Cancelled)) 7,
         StatusNotification ''task-1'' Completed None None 8]"
    by (simp add: g)
  from stored_status_follows_peer [of "exTracked Completed" "''task-1''" Completed
      "[StatusNotification ''task-2'' Working None None 5,
        CancelTask ''srv'' ''task-1'' (Some Global) (Inl (McpError InvalidRequest ''terminal'')) 6,
        CancelTask ''gone'' ''task-1'' (Some Global) (Inr (exTask Cancelled)) 7,
        StatusNotification ''task-1'' Completed None None 8]"] s q
  show ?thesis by blast
qed

text \<open>
  The claim as stated fails: with \<open>completed\<close> stored, a \<open>cancelTask\<close> that the
  peer accepts stores \<open>cancelled\<close>, and a notification carrying \<open>working\<close>
  stores \<open>working\<close>.
\<close>

theorem terminal_status_overwritten_counterexample:
  "storedStatus (exTracked Completed) ''task-1'' = Some Completed
   \<and> storedStatus (applyTaskOp (CancelTask ''srv'' ''task-1'' (Some Global) (Inr (exTask Completed)) 5)
        (exTracked Completed)) ''task-1'' = Some Cancelled
   \<and> storedStatus (applyTaskOp (StatusNotification ''task-1'' Working None None 5)
        (exTracked Completed)) ''task-1'' = Some Working"
  by (simp add: storedStatus_def exTracked_tasks exTracked_client cancelTask_def
      taskStatusHandler_def Let_def exTask_def)

section \<open>Task records and time\<close>


section \<open>Polling a task and fetching its result\<close>

declare pollLoop.simps [simp del]

lemma getTask_connected:
  "connectedClient h sn src = Some cl \<Longrightarrow>
     getTask h sn tid src resp now = (resp, emit [PeerRequest (clientId cl) (TasksGet tid)] h)"
  by (auto simp: getTask_def Let_def taskMember_def split: option.splits sum.splits)

lemma poll_first_turn:
  assumes "connectedClient h sn (po_source opts) = Some cl"
    and "\<not> ps_clock step - start
             > (case po_timeoutMs opts of Some t \<Rightarrow> t | None \<Rightarrow> 300000)"
    and "ps_resp step = Inr answer"
  shows "pollTaskUntilComplete h sn tid opts start rr (step # rest)
     = (Some (Inl (McpError InternalError (''Task '' @ tid @ '' not found''))),
        emit [PeerRequest (clientId cl) (TasksGet tid)] h)"
  unfolding pollTaskUntilComplete_def
  by (subst pollLoop.simps)
    (simp add: Let_def assms getTask_connected [OF assms(1)] taskMember_def)

text \<open>
  \<open>getTaskResult\<close> on a connected server sends one \<open>tasks/result\<close> and hands
  back the peer's answer; when the answer is a payload, the record of the task and its
  progress token are removed.
\<close>

lemma getTaskResult_connected:
  assumes "connectedClient h sn src = Some cl"
  shows "fst (getTaskResult h sn tid src rr) = rr"
    and "resultFetches tid (snd (getTaskResult h sn tid src rr)) = Suc (resultFetches tid h)"
    and "rr = Inr payload \<Longrightarrow> activeTasks (snd (getTaskResult h sn tid src rr)) tid = None"
    and "rr = Inr payload \<Longrightarrow> tokenOf h tid = Some tok \<Longrightarrow> truthy tok
           \<Longrightarrow> activeProgressTokens (snd (getTaskResult h sn tid src rr)) tok = None"
  using assms
  by (auto simp: getTaskResult_def Let_def resultFetches_def tokenOf_def clearIfTruthy_def
      clearProgressToken_def split: option.splits sum.splits)

text \<open>
  C8. The task \<open>task-1\<close> is tracked on the connected server \<open>srv\<close>, and the peer
  answers \<open>tasks/get\<close> with the task in status \<open>failed\<close>, \<open>cancelled\<close> or
  \<open>completed\<close>. In each case \<open>pollTaskUntilComplete\<close> rejects after the first
  \<open>tasks/get\<close> with the error \<open>Task task-1 not found\<close>. For the completed task
  it sends no \<open>tasks/result\<close>, and the record stays as it was.
\<close>

theorem poll_reports_not_found:
  "fst (pollTaskUntilComplete (exTracked Working) ''srv'' ''task-1'' exPollOptions 0
          (Inr ''payload'') [exStep 10 Failed])
      = Some (Inl (McpError InternalError ''Task task-1 not found''))
   \<and> fst (pollTaskUntilComplete (exTracked Working) ''srv'' ''task-1'' exPollOptions 0
            (Inr ''payload'') [exStep 10 Cancelled])
      = Some (Inl (McpError InternalError ''Task task-1 not found''))
   \<and> fst (pollTaskUntilComplete (exTracked Working) ''srv'' ''task-1'' exPollOptions 0
            (Inr ''payload'') [exStep 10 Completed])
      = Some (Inl (McpError InternalError ''Task task-1 not found''))
   \<and> trace (snd (pollTaskUntilComplete (exTracked Working) ''srv'' ''task-1'' exPollOptions 0
                   (Inr ''payload'') [exStep 10 Completed]))
      = [PeerRequest 1 (ToolsCallTask ''build'' ''{}'' (Some 50) (Some (StrId ''uuid-1''))),
         PeerRequest 1 (TasksGet ''task-1'')]
   \<and> resultFetches ''task-1''
        (snd (pollTaskUntilComplete (exTracked Working) ''srv'' ''task-1'' exPollOptions 0
                (Inr ''payload'') [exStep 10 Completed]))
      = 0
   \<and> storedStatus (snd (pollTaskUntilComplete (exTracked Working) ''srv'' ''task-1''
                           exPollOptions 0 (Inr ''payload'') [exStep 10 Completed])) ''task-1''
      = Some Working"
proof -
  have cl: "connectedClient (exTracked Working) ''srv'' (po_source exPollOptions) = Some exClient"
    by (simp add: exPollOptions_def exTracked_client)
  have w: "\<not> ps_clock (exStep 10 st) - 0
             > (case po_timeoutMs exPollOptions of Some t \<Rightarrow> t | None \<Rightarrow> 300000)" for st
    by (simp add: exPollOptions_def exStep_def)
  have r: "ps_resp (exStep 10 st) = Inr (exTask st)" for st
    by (simp add: exStep_def)
  note p = poll_first_turn [OF cl w r, where tid = "''task-1''" and rr = "Inr ''payload''"
      and rest = "[]"]
  show ?thesis
    by (simp add: p exTracked_trace storedStatus_def exTracked_tasks exClient_def
        resultFetches_def)
qed

section \<open>Facts about connecting\<close>

lemma setupFileWatcher_frame [simp]:
  "connections (setupFileWatcher nm cfg ids h) = connections h"
  "trace (setupFileWatcher nm cfg ids h) = trace h"
  "provider (setupFileWatcher nm cfg ids h) = provider h"
  "mcpEnabledState (setupFileWatcher nm cfg ids h) = mcpEnabledState h"
  by (simp_all add: setupFileWatcher_def Let_def)

lemma notify_frame [simp]:
  "connections (snd (notifyWebviewOfServerChanges out h)) = connections h"
  "provider (snd (notifyWebviewOfServerChanges out h)) = provider h"
  "mcpEnabledState (snd (notifyWebviewOfServerChanges out h)) = mcpEnabledState h"
  by (simp_all add: notifyWebviewOfServerChanges_def split: NotifyOutcome.splits)

lemma updateFirst_none: "\<forall>x \<in> set xs. \<not> P x \<Longrightarrow> updateFirst P f xs = xs"
  by (induction xs) simp_all

lemma updateFirst_append_none:
  "\<forall>x \<in> set xs. \<not> P x \<Longrightarrow> updateFirst P f (xs @ ys) = xs @ updateFirst P f ys"
  by (induction xs) simp_all

lemma find_append_none:
  "\<forall>x \<in> set xs. \<not> P x \<Longrightarrow> find P (xs @ ys) = find P ys"
  by (induction xs) simp_all

lemma find_none: "\<forall>x \<in> set xs. \<not> P x \<Longrightarrow> find P xs = None"
  by (induction xs) simp_all

lemma updateLast_snoc: "updateLast f (xs @ [x]) = xs @ [f x]"
proof (induction xs)
  case Nil
  then show ?case by simp
next
  case (Cons a xs)
  then show ?case by (cases "xs @ [x]") simp_all
qed

lemma base_none:
  "\<forall>c \<in> set (base nm src h). \<not> (name (server c) = nm \<and> source (server c) = Some src)"
  by (simp add: base_def selected_def)

lemma appendErrorMessage_key [simp]:
  "name (appendErrorMessage s m l now) = name s"
  "source (appendErrorMessage s m l now) = source s"
  "status (appendErrorMessage s m l now) = status s"
  "error (appendErrorMessage s m l now) = Some (truncateError m)"
  by (simp_all add: appendErrorMessage_def Let_def)


lemma transportEvent_nomatch:
  assumes "\<forall>x \<in> set (connections h). \<not> (name (server x) = nm \<and> source (server x) = Some src)"
  shows "connections (transportEvent ty l nm src ev h) = connections h"
proof (cases ev)
  case (OnError err now out)
  then show ?thesis
    by (simp add: transportOnError_def Let_def updateFirst_none [OF assms])
next
  case (OnClose out)
  then show ?thesis
    by (simp add: transportOnClose_def updateFirst_none [OF assms])
next
  case (OnStderr outp now out)
  have "findConnection (emit [ConsoleError (ServerStderrLog nm outp)] h) nm (Some src) = None"
    by (simp add: findConnection_def find_none [OF assms])
  with OnStderr show ?thesis
    by (simp add: transportStderr_def Let_def)
qed

lemma transportEvents_nomatch:
  assumes "\<forall>x \<in> set (connections h). \<not> (name (server x) = nm \<and> source (server x) = Some src)"
  shows "connections (transportEvents ty l nm src evs h) = connections h"
  unfolding transportEvents_def using assms
proof (induction evs arbitrary: h)
  case Nil
  then show ?case by simp
next
  case (Cons ev evs)
  have c: "connections (transportEvent ty l nm src ev h) = connections h"
    using Cons.prems by (rule transportEvent_nomatch)
  have "connections (fold (transportEvent ty l nm src) evs (transportEvent ty l nm src ev h))
          = connections (transportEvent ty l nm src ev h)"
    using Cons.prems by (intro Cons.IH) (simp add: c)
  with c show ?case by simp
qed

lemma transportEvent_tail:
  assumes c: "connections h = bs @ [ConnectedMcpConnection s cl t]"
    and k: "name s = nm" "source s = Some src"
    and n: "\<forall>x \<in> set bs. \<not> (name (server x) = nm \<and> source (server x) = Some src)"
  shows "\<exists>s'. connections (transportEvent ty l nm src ev h) = bs @ [ConnectedMcpConnection s' cl t]
              \<and> name s' = nm \<and> source s' = Some src"
proof (cases ev)
  case (OnError err now out)
  then show ?thesis using k
    by (simp add: transportOnError_def Let_def c updateFirst_append_none [OF n])
next
  case (OnClose out)
  then show ?thesis using k
    by (simp add: transportOnClose_def c updateFirst_append_none [OF n])
next
  case (OnStderr outp now out)
  have f: "findConnection (emit [ConsoleError (ServerStderrLog nm outp)] h) nm (Some src)
             = Some (ConnectedMcpConnection s cl t)"
    using k by (simp add: findConnection_def c find_append_none [OF n])
  from OnStderr show ?thesis using k
    by (simp add: transportStderr_def Let_def f c updateFirst_append_none [OF n])
qed

lemma transportEvents_tail:
  assumes c: "connections h = bs @ [ConnectedMcpConnection s cl t]"
    and k: "name s = nm" "source s = Some src"
    and n: "\<forall>x \<in> set bs. \<not> (name (server x) = nm \<and> source (server x) = Some src)"
  shows "\<exists>s'. connections (transportEvents ty l nm src evs h) = bs @ [ConnectedMcpConnection s' cl t]
              \<and> name s' = nm \<and> source s' = Some src"
  unfolding transportEvents_def using c k
proof (induction evs arbitrary: h s)
  case Nil
  then show ?case by simp
next
  case (Cons ev evs)
  from transportEvent_tail [OF Cons.prems(1) Cons.prems(2) Cons.prems(3) n, of ty l ev]
  obtain s1 where s1: "connections (transportEvent ty l nm src ev h)
                         = bs @ [ConnectedMcpConnection s1 cl t]"
    "name s1 = nm" "source s1 = Some src"
    by blast
  from Cons.IH [OF s1] show ?case by simp
qed

lemma findConnection_tail:
  assumes "connections h = bs @ [c]"
    and "name (server c) = nm" "source (server c) = Some src"
    and "\<forall>x \<in> set bs. \<not> (name (server x) = nm \<and> source (server x) = Some src)"
  shows "findConnection h nm (Some src) = Some c"
  using assms(1-3) by (simp add: findConnection_def find_append_none [OF assms(4)])

lemma fetchList_tail:
  assumes "connections h = bs @ [ConnectedMcpConnection s cl t]"
    and "name s = nm" "source s = Some src"
    and "\<forall>x \<in> set bs. \<not> (name (server x) = nm \<and> source (server x) = Some src)"
  shows "fetchList h nm (Some src) r = (case r of Some xs \<Rightarrow> xs | None \<Rightarrow> [])"
proof -
  have "findConnection h nm (Some src) = Some (ConnectedMcpConnection s cl t)"
    using assms by (intro findConnection_tail) simp_all
  then show ?thesis by (simp add: fetchList_def)
qed

lemma connectCatch_nomatch:
  assumes "\<forall>x \<in> set (connections h). \<not> (name (server x) = nm \<and> source (server x) = Some src)"
  shows "connectCatch nm src e now h = (Inl e, h)"
  by (simp add: connectCatch_def updateFirst_none [OF assms])

lemma attempt_acquire_fails:
  assumes n: "\<forall>x \<in> set (connections h). \<not> (name (server x) = nm \<and> source (server x) = Some src)"
    and a: "ce_acquire env = Inl e"
  shows "fst (connectAttempt h nm cfg src env) = Inl e"
    and "connections (snd (connectAttempt h nm cfg src env)) = connections h"
proof -
  let ?h1 = "transportEvents (c_type cfg) False nm src (ce_startEvents env) h"
  have c1: "connections ?h1 = connections h"
    using n by (rule transportEvents_nomatch)
  have "connectCatch nm src e (ce_now env) ?h1 = (Inl e, ?h1)"
    using n by (intro connectCatch_nomatch) (simp add: c1)
  then have r: "connectAttempt h nm cfg src env = (Inl e, ?h1)"
    by (simp add: connectAttempt_def Let_def a)
  show "fst (connectAttempt h nm cfg src env) = Inl e" by (simp add: r)
  show "connections (snd (connectAttempt h nm cfg src env)) = connections h" by (simp add: r c1)
qed

lemma attempt_handshake_fails:
  assumes n: "\<forall>x \<in> set (connections h). \<not> (name (server x) = nm \<and> source (server x) = Some src)"
    and a: "ce_acquire env = Inr t" and hs: "ce_handshake env = Inl e"
  shows "fst (connectAttempt h nm cfg src env) = Inl e
         \<and> (\<exists>s'. connections (snd (connectAttempt h nm cfg src env))
                  = connections h
                    @ [ConnectedMcpConnection
                         (appendErrorMessage (s'\<lparr>status := Disconnected\<rparr>) (errorMessage e)
                            LvError (ce_now env))
                         (ce_client env) t]
                \<and> name s' = nm \<and> source s' = Some src)"
proof -
  define h1 where "h1 = transportEvents (c_type cfg) False nm src (ce_startEvents env) h"
  define h2 where "h2 = h1\<lparr>connections := connections h1
                         @ [ConnectedMcpConnection (connectingServer nm cfg src env)
                              (ce_client env) t]\<rparr>"
  define h3 where "h3 = transportEvents (c_type cfg) (c_type cfg = Stdio) nm src
                         (ce_connectEvents env) h2"
  have c1: "connections h1 = connections h"
    unfolding h1_def using n by (rule transportEvents_nomatch)
  have c2: "connections h2
              = connections h @ [ConnectedMcpConnection (connectingServer nm cfg src env)
                                   (ce_client env) t]"
    by (simp add: h2_def c1)
  have k2: "name (connectingServer nm cfg src env) = nm"
    "source (connectingServer nm cfg src env) = Some src"
    by (simp_all add: connectingServer_def)
  from transportEvents_tail [OF c2 k2 n, of "c_type cfg" "c_type cfg = Stdio" "ce_connectEvents env"]
  obtain s3 where s3: "connections h3 = connections h @ [ConnectedMcpConnection s3 (ce_client env) t]"
    "name s3 = nm" "source s3 = Some src"
    unfolding h3_def by blast
  have r: "connectAttempt h nm cfg src env = connectCatch nm src e (ce_now env) h3"
    by (simp add: connectAttempt_def Let_def a hs h3_def h2_def h1_def)
  have "connections (snd (connectCatch nm src e (ce_now env) h3))
          = connections h
            @ [ConnectedMcpConnection
                 (appendErrorMessage (s3\<lparr>status := Disconnected\<rparr>) (errorMessage e)
                    LvError (ce_now env))
                 (ce_client env) t]"
    using s3(2,3) by (simp add: connectCatch_def s3(1) updateFirst_append_none [OF n])
  with s3(2,3) r show ?thesis
    by (auto simp: connectCatch_def)
qed

lemma attempt_succeeds:
  assumes n: "\<forall>x \<in> set (connections h). \<not> (name (server x) = nm \<and> source (server x) = Some src)"
    and a: "ce_acquire env = Inr t" and hs: "ce_handshake env = Inr (caps, instr)"
  shows "fst (connectAttempt h nm cfg src env) = Inr ()
         \<and> (\<exists>s'. connections (snd (connectAttempt h nm cfg src env))
                  = connections h
                    @ [ConnectedMcpConnection s' ((ce_client env)\<lparr>serverCapabilities := caps\<rparr>) t]
                \<and> name s' = nm \<and> source s' = Some src
                \<and> tools s' = Some (case ce_tools env of Some xs \<Rightarrow> xs | None \<Rightarrow> [])
                \<and> resources s' = Some (case ce_resources env of Some xs \<Rightarrow> xs | None \<Rightarrow> [])
                \<and> resourceTemplates s'
                    = Some (case ce_resourceTemplates env of Some xs \<Rightarrow> xs | None \<Rightarrow> [])
                \<and> prompts s' = Some (case ce_prompts env of Some xs \<Rightarrow> xs | None \<Rightarrow> [])
                \<and> (ce_fetchEvents env = [] \<longrightarrow> status s' = Connected \<and> error s' = Some []))"
proof -
  define h1 where "h1 = transportEvents (c_type cfg) False nm src (ce_startEvents env) h"
  define h2 where "h2 = h1\<lparr>connections := connections h1
                         @ [ConnectedMcpConnection (connectingServer nm cfg src env)
                              (ce_client env) t]\<rparr>"
  define h3 where "h3 = transportEvents (c_type cfg) (c_type cfg = Stdio) nm src
                         (ce_connectEvents env) h2"
  define h4 where "h4 = h3\<lparr>connections :=
                          updateLast
                            (\<lambda>conn. mapClient (\<lambda>c. c\<lparr>serverCapabilities := caps\<rparr>)
                               (mapServer (\<lambda>s. s\<lparr>status := Connected, error := Some [],
                                                 instructions := instr\<rparr>) conn))
                            (connections h3)\<rparr>"
  define h5 where "h5 = transportEvents (c_type cfg) (c_type cfg = Stdio) nm src
                          (ce_fetchEvents env) h4"
  define h6 where "h6 = h5\<lparr>connections :=
                          updateLast (mapServer (\<lambda>s. s\<lparr>tools :=
                              Some (fetchList h5 nm (Some src) (ce_tools env))\<rparr>))
                            (connections h5)\<rparr>"
  define h7 where "h7 = h6\<lparr>connections :=
                          updateLast (mapServer (\<lambda>s. s\<lparr>resources :=
                              Some (fetchList h6 nm (Some src) (ce_resources env))\<rparr>))
                            (connections h6)\<rparr>"
  define h8 where "h8 = h7\<lparr>connections :=
                          updateLast (mapServer (\<lambda>s. s\<lparr>resourceTemplates :=
                              Some (fetchList h7 nm (Some src) (ce_resourceTemplates env))\<rparr>))
                            (connections h7)\<rparr>"
  define h9 where "h9 = h8\<lparr>connections :=
                          updateLast (mapServer (\<lambda>s. s\<lparr>prompts :=
                              Some (fetchList h8 nm (Some src) (ce_prompts env))\<rparr>))
                            (connections h8)\<rparr>"
  let ?cl = "(ce_client env)\<lparr>serverCapabilities := caps\<rparr>"
  have r: "connectAttempt h nm cfg src env = (Inr (), h9)"
    unfolding connectAttempt_def h9_def h8_def h7_def h6_def h5_def h4_def h3_def h2_def h1_def
      Let_def
    by (simp add: a hs)
  have c1: "connections h1 = connections h"
    unfolding h1_def using n by (rule transportEvents_nomatch)
  have c2: "connections h2
              = connections h @ [ConnectedMcpConnection (connectingServer nm cfg src env)
                                   (ce_client env) t]"
    by (simp add: h2_def c1)
  have k2: "name (connectingServer nm cfg src env) = nm"
    "source (connectingServer nm cfg src env) = Some src"
    by (simp_all add: connectingServer_def)
  from transportEvents_tail [OF c2 k2 n, of "c_type cfg" "c_type cfg = Stdio" "ce_connectEvents env"]
  obtain s3 where s3: "connections h3 = connections h @ [ConnectedMcpConnection s3 (ce_client env) t]"
    "name s3 = nm" "source s3 = Some src"
    unfolding h3_def by blast
  define s4 where "s4 = s3\<lparr>status := Connected, error := Some [], instructions := instr\<rparr>"
  have c4: "connections h4 = connections h @ [ConnectedMcpConnection s4 ?cl t]"
    by (simp add: h4_def s3(1) updateLast_snoc s4_def)
  have k4: "name s4 = nm" "source s4 = Some src"
    using s3(2,3) by (simp_all add: s4_def)
  from transportEvents_tail [OF c4 k4 n, of "c_type cfg" "c_type cfg = Stdio" "ce_fetchEvents env"]
  obtain s5 where s5: "connections h5 = connections h @ [ConnectedMcpConnection s5 ?cl t]"
    "name s5 = nm" "source s5 = Some src"
    unfolding h5_def by blast
  have q5: "ce_fetchEvents env = [] \<Longrightarrow> s5 = s4"
    using s5(1) c4 by (simp add: h5_def transportEvents_def)
  define s6 where "s6 = s5\<lparr>tools := Some (case ce_tools env of Some xs \<Rightarrow> xs | None \<Rightarrow> [])\<rparr>"
  have c6: "connections h6 = connections h @ [ConnectedMcpConnection s6 ?cl t]"
    by (simp add: h6_def s5(1) updateLast_snoc s6_def fetchList_tail [OF s5 n])
  have k6: "name s6 = nm" "source s6 = Some src"
    using s5(2,3) by (simp_all add: s6_def)
  define s7 where "s7 = s6\<lparr>resources :=
      Some (case ce_resources env of Some xs \<Rightarrow> xs | None \<Rightarrow> [])\<rparr>"
  have c7: "connections h7 = connections h @ [ConnectedMcpConnection s7 ?cl t]"
    by (simp add: h7_def c6 updateLast_snoc s7_def fetchList_tail [OF c6 k6 n])
  have k7: "name s7 = nm" "source s7 = Some src"
    using k6 by (simp_all add: s7_def)
  define s8 where "s8 = s7\<lparr>resourceTemplates :=
      Some (case ce_resourceTemplates env of Some xs \<Rightarrow> xs | None \<Rightarrow> [])\<rparr>"
  have c8: "connections h8 = connections h @ [ConnectedMcpConnection s8 ?cl t]"
    by (simp add: h8_def c7 updateLast_snoc s8_def fetchList_tail [OF c7 k7 n])
  have k8: "name s8 = nm" "source s8 = Some src"
    using k7 by (simp_all add: s8_def)
  define s9 where "s9 = s8\<lparr>prompts :=
      Some (case ce_prompts env of Some xs \<Rightarrow> xs | None \<Rightarrow> [])\<rparr>"
  have c9: "connections h9 = connections h @ [ConnectedMcpConnection s9 ?cl t]"
    by (simp add: h9_def c8 updateLast_snoc s9_def fetchList_tail [OF c8 k8 n])
  have p9: "name s9 = nm" "source s9 = Some src"
    "tools s9 = Some (case ce_tools env of Some xs \<Rightarrow> xs | None \<Rightarrow> [])"
    "resources s9 = Some (case ce_resources env of Some xs \<Rightarrow> xs | None \<Rightarrow> [])"
    "resourceTemplates s9
       = Some (case ce_resourceTemplates env of Some xs \<Rightarrow> xs | None \<Rightarrow> [])"
    "prompts s9 = Some (case ce_prompts env of Some xs \<Rightarrow> xs | None \<Rightarrow> [])"
    using k8 by (simp_all add: s9_def s8_def s7_def s6_def)
  have st: "ce_fetchEvents env = [] \<longrightarrow> status s9 = Connected \<and> error s9 = Some []"
    using q5 by (auto simp: s9_def s8_def s7_def s6_def s4_def)
  from r c9 p9 st show ?thesis by auto
qed

lemma isMcpEnabled_cong:
  "provider h' = provider h \<Longrightarrow> mcpEnabledState h' = mcpEnabledState h
     \<Longrightarrow> isMcpEnabled h' = isMcpEnabled h"
  by (simp add: isMcpEnabled_def)

lemma deleteConnection_enabled [simp]:
  "provider (deleteConnection sn nm src h) = provider h"
  "mcpEnabledState (deleteConnection sn nm src h) = mcpEnabledState h"
  by (simp_all add: deleteConnection_def Let_def removeFileWatchersForServer_def
      split: option.splits)

lemma connectPrepare_enabled:
  assumes "isMcpEnabled h" and "c_disabled cfg \<noteq> Some True"
  shows "fst (connectPrepare sn h nm cfg src ids) = False"
    and "connections (snd (connectPrepare sn h nm cfg src ids)) = base nm src h"
  using assms
  by (simp_all add: connectPrepare_def Let_def isMcpEnabled_def deleteConnection_connections
      kept_iff [abs_def] base_def)

lemma connectToServer_enabled:
  assumes "isMcpEnabled h" and "c_disabled cfg \<noteq> Some True"
  shows "connectToServer sn h nm cfg src env
           = connectAttempt (snd (connectPrepare sn h nm cfg src (ce_watcherIds env))) nm cfg src env"
  using connectPrepare_enabled(1) [OF assms, of sn nm src "ce_watcherIds env"]
  by (cases "connectPrepare sn h nm cfg src (ce_watcherIds env)") (simp add: connectToServer_def)

section \<open>Failures while connecting\<close>




lemma newHub_base: "base nm src (newHub p e) = []"
  by (simp add: base_def newHub_def)

lemma newHub_prepare:
  "connectPrepare id (newHub False None) ''srv'' exConfig Global ids
     = (False, (newHub False None)\<lparr>fileWatchers := [(''srv'', [])],
                                    sanitizedNameRegistry := [''srv'' \<mapsto> ''srv'']\<rparr>)"
  by (simp add: connectPrepare_def Let_def deleteConnection_def removeFileWatchersForServer_def
      newHub_def isMcpEnabled_def exConfig_def setupFileWatcher_def emit_def sublist_code)

lemma newHub_connect:
  "connectToServer id (newHub False None) ''srv'' exConfig Global env
     = connectAttempt ((newHub False None)\<lparr>fileWatchers := [(''srv'', [])],
                                             sanitizedNameRegistry := [''srv'' \<mapsto> ''srv'']\<rparr>)
         ''srv'' exConfig Global env"
  by (simp add: connectToServer_def newHub_prepare)

lemmas connect_eval =
  connectAttempt_def Let_def exFailedHandshake_def
  exFailedAcquisition_def exConnected_def exConnectEnv_def
  transportEvents_def transportOnError_def transportOnClose_def
  notifyWebviewOfServerChanges_def connectCatch_def connectingServer_def
  appendErrorMessage_def truncateError_def MAX_ERROR_LENGTH_def exConfig_def
  exNewTransport_def fetchList_def findConnection_def




section \<open>One connection for a name and a source\<close>

lemma exOverlap_keys:
  "connectionKeys exOverlap = [(''srv'', Some Global), (''srv'', Some Global)]"
  unfolding exOverlap_def newHub_prepare snd_conv
  by (simp add: connectionKeys_def connect_eval newHub_def
      connectPrepare_def deleteConnection_def removeFileWatchersForServer_def
      isMcpEnabled_def setupFileWatcher_def sublist_code selected_def kept_def)

lemma connect_shape:
  "\<exists>cs. connections (snd (connectToServer sn h nm cfg src env)) = base nm src h @ cs
      \<and> (cs = [] \<or> (\<exists>c. cs = [c] \<and> name (server c) = nm \<and> source (server c) = Some src))"
proof (cases "isMcpEnabled h \<and> c_disabled cfg \<noteq> Some True")
  case True
  then have en: "isMcpEnabled h" and nd: "c_disabled cfg \<noteq> Some True" by simp_all
  define h0 where "h0 = snd (connectPrepare sn h nm cfg src (ce_watcherIds env))"
  have run: "connectToServer sn h nm cfg src env = connectAttempt h0 nm cfg src env"
    unfolding h0_def using en nd by (rule connectToServer_enabled)
  have c0: "connections h0 = base nm src h"
    unfolding h0_def using en nd by (rule connectPrepare_enabled(2))
  have n: "\<forall>x \<in> set (connections h0). \<not> (name (server x) = nm \<and> source (server x) = Some src)"
    using base_none [of nm src h] by (simp add: c0)
  show ?thesis
  proof (cases "ce_acquire env")
    case (Inl e)
    from attempt_acquire_fails(2) [OF n Inl, of cfg] show ?thesis
      by (simp add: run c0)
  next
    case (Inr t)
    show ?thesis
    proof (cases "ce_handshake env")
      case (Inl e)
      from attempt_handshake_fails [OF n Inr Inl, of cfg] show ?thesis
        unfolding run c0 by auto
    next
      case hs: (Inr p)
      obtain caps instr where p: "p = (caps, instr)" by (cases p)
      from attempt_succeeds [OF n Inr hs [unfolded p], of cfg] show ?thesis
        unfolding run c0 by auto
    qed
  qed
next
  case False
  have en: "isMcpEnabled ((deleteConnection sn nm (Some src) h)\<lparr>sanitizedNameRegistry := r\<rparr>)
              = isMcpEnabled h" for r
    by (simp add: isMcpEnabled_def)
  from False show ?thesis
    by (auto simp: connectToServer_def connectPrepare_def Let_def en
        deleteConnection_connections kept_iff [abs_def] base_def createPlaceholderConnection_def)
qed

lemma connectionKeys_alt: "connectionKeys h = map connKey (connections h)"
  by (simp add: connectionKeys_def connKey_def)

lemma keys_deleteConnection:
  "distinct (connectionKeys h) \<Longrightarrow> distinct (connectionKeys (deleteConnection sn nm src h))"
  by (simp add: connectionKeys_alt deleteConnection_connections distinct_map_filter)

lemma keys_connectToServer:
  assumes "distinct (connectionKeys h)"
  shows "distinct (connectionKeys (snd (connectToServer sn h nm cfg src env)))"
proof -
  from connect_shape [of sn h nm cfg src env] obtain cs where
    eq: "connections (snd (connectToServer sn h nm cfg src env)) = base nm src h @ cs"
    and cs: "cs = [] \<or> (\<exists>c. cs = [c] \<and> name (server c) = nm \<and> source (server c) = Some src)"
    by blast
  have d: "distinct (map connKey (base nm src h))"
    using assms by (simp add: connectionKeys_alt base_def distinct_map_filter)
  have n: "(nm, Some src) \<notin> set (map connKey (base nm src h))"
    using base_none [of nm src h] by (auto simp: connKey_def)
  from cs show ?thesis
  proof
    assume "cs = []"
    with eq d show ?thesis by (simp add: connectionKeys_alt)
  next
    assume "\<exists>c. cs = [c] \<and> name (server c) = nm \<and> source (server c) = Some src"
    then obtain c where c: "cs = [c]" "connKey c = (nm, Some src)"
      by (auto simp: connKey_def)
    with eq d n show ?thesis by (simp add: connectionKeys_alt)
  qed
qed

lemma removeAllFileWatchers_connections [simp]:
  "connections (removeAllFileWatchers h) = connections h"
  by (simp add: removeAllFileWatchers_def)

lemma keys_updateOne:
  assumes "distinct (connectionKeys h)"
  shows "distinct (connectionKeys (updateOne sn src e h))"
proof (cases "ue_validated e")
  case (Inl err)
  with assms show ?thesis
    by (simp add: updateOne_def connectionKeys_def)
next
  case (Inr cfg)
  define h1 where "h1 = (if c_disabled cfg \<noteq> Some True
                         then setupFileWatcher (ue_name e) cfg (ue_watcherIds e) h else h)"
  have k1: "distinct (connectionKeys h1)"
    using assms by (simp add: h1_def connectionKeys_def)
  show ?thesis
  proof (cases "findConnection h (ue_name e) (Some src)")
    case None
    have "distinct (connectionKeys (snd (connectToServer sn h1 (ue_name e) cfg src (ue_env e))))"
      using k1 by (rule keys_connectToServer)
    with Inr None show ?thesis
      by (auto simp: updateOne_def Let_def h1_def connectionKeys_def split: prod.splits sum.splits)
  next
    case (Some conn)
    have "distinct (connectionKeys
            (snd (connectToServer sn (deleteConnection sn (ue_name e) (Some src) h1)
                    (ue_name e) cfg src (ue_env e))))"
      using k1 by (intro keys_connectToServer keys_deleteConnection)
    with Inr Some assms show ?thesis
      by (auto simp: updateOne_def Let_def h1_def connectionKeys_def split: prod.splits sum.splits)
  qed
qed

lemma keys_fold_updateOne:
  "distinct (connectionKeys h) \<Longrightarrow> distinct (connectionKeys (fold (updateOne sn src) es h))"
  by (induction es arbitrary: h) (simp_all add: keys_updateOne)

lemma keys_deleteRemoved:
  "distinct (connectionKeys h)
     \<Longrightarrow> distinct (connectionKeys (deleteRemoved sn src newNames currentNames h))"
  unfolding deleteRemoved_def
  by (induction currentNames arbitrary: h) (simp_all add: keys_deleteConnection)

lemma keys_update_core:
  "distinct (connectionKeys h)
     \<Longrightarrow> distinct (connectionKeys
           (fold (updateOne sn src) newServers (deleteRemoved sn src newNames cur h)))"
  by (intro keys_fold_updateOne keys_deleteRemoved)

lemma keys_notify:
  "connectionKeys (snd (notifyWebviewOfServerChanges out h)) = connectionKeys h"
  by (simp add: connectionKeys_def)

lemma keys_updateServerConnections:
  assumes "distinct (connectionKeys h)"
  shows "distinct (connectionKeys (snd (updateServerConnections sn h newServers src manage out)))"
proof -
  define h1 where "h1 = (if manage then h\<lparr>isConnecting := True\<rparr> else h)"
  define h2 where "h2 = removeAllFileWatchers h1"
  define h4 where "h4 = fold (updateOne sn src) newServers
      (deleteRemoved sn src (map ue_name newServers)
         (setOrder (map (\<lambda>conn. name (server conn))
            (filter (\<lambda>conn. source (server conn) = Some src
                      \<or> (source (server conn) = None \<and> src = Global)) (connections h2)))) h2)"
  have "distinct (connectionKeys h2)"
    using assms by (simp add: h2_def h1_def connectionKeys_def)
  then have k4: "distinct (connectionKeys h4)"
    unfolding h4_def by (rule keys_update_core)
  obtain r h5 where n: "notifyWebviewOfServerChanges out h4 = (r, h5)"
    by (cases "notifyWebviewOfServerChanges out h4")
  have k5: "distinct (connectionKeys h5)"
    using keys_notify [of out h4] k4 by (simp add: n)
  have "updateServerConnections sn h newServers src manage out
          = (case notifyWebviewOfServerChanges out h4 of
               (Inl e, h5) \<Rightarrow> (Inl e, h5)
             | (Inr u, h5) \<Rightarrow> (Inr (), if manage then h5\<lparr>isConnecting := False\<rparr> else h5))"
    by (simp add: updateServerConnections_def Let_def h4_def h2_def h1_def)
  with n k5 show ?thesis
    by (cases r) (simp_all add: connectionKeys_def)
qed

lemma connKey_mapServer:
  "name (f (server c)) = name (server c) \<Longrightarrow> source (f (server c)) = source (server c)
     \<Longrightarrow> connKey (mapServer f c) = connKey c"
  by (cases c) (simp_all add: connKey_def)

lemma keys_updateFirst:
  "(\<And>x. k (f x) = k x) \<Longrightarrow> map k (updateFirst P f xs) = map k xs"
  by (induction xs) simp_all

lemma keys_restartBody:
  assumes "distinct (connectionKeys h)"
  shows "distinct (connectionKeys (restartBody sn h nm conn env))"
proof -
  define h1 where "h1 = deleteConnection sn nm (source (server conn)) (emit [Delay 500] h)"
  have k1: "distinct (connectionKeys h1)"
    unfolding h1_def using assms by (intro keys_deleteConnection) (simp add: connectionKeys_def)
  show ?thesis
  proof (cases "re_validated env")
    case (Inl err)
    with k1 show ?thesis
      by (simp add: restartBody_def Let_def h1_def connectionKeys_def)
  next
    case (Inr cfg)
    define s where "s = (case source (server conn) of Some s \<Rightarrow> s | None \<Rightarrow> Global)"
    obtain r h' where c: "connectToServer sn h1 nm cfg s (re_env env) = (r, h')"
      by (cases "connectToServer sn h1 nm cfg s (re_env env)")
    have "distinct (connectionKeys h')"
      using keys_connectToServer [OF k1, of sn nm cfg s "re_env env"] c by simp
    with Inr c [unfolded h1_def s_def] show ?thesis
      by (cases r) (simp_all add: restartBody_def Let_def connectionKeys_def)
  qed
qed

lemma keys_restartConnection:
  assumes "distinct (connectionKeys h)"
  shows "distinct (connectionKeys (snd (restartConnection sn h nm src env)))"
proof (cases "isMcpEnabled (h\<lparr>isConnecting := True\<rparr>)")
  case False
  with assms show ?thesis
    by (simp add: restartConnection_def Let_def connectionKeys_def)
next
  case en: True
  define h1 where "h1 = h\<lparr>isConnecting := True\<rparr>"
  define mid where "mid = (case findConnection h1 nm src of
                    None \<Rightarrow> (Inr (), h1)
                  | Some conn \<Rightarrow>
                      if config (server conn) = [] then (Inr (), h1)
                      else
                        (let h2 = emit [ShowInformation ''mcp:info.server_restarting''] h1;
                             h3 = h2\<lparr>connections :=
                                     updateFirst (foundBy h2 nm src)
                                       (mapServer (\<lambda>s. s\<lparr>status := Connecting,
                                                          error := Some []\<rparr>))
                                       (connections h2)\<rparr>
                         in case notifyWebviewOfServerChanges (re_notify1 env) h3 of
                              (Inl e, h4) \<Rightarrow> (Inl e, h4)
                            | (Inr u, h4) \<Rightarrow>
                                (Inr (), restartBody sn h4 nm conn env)))"
  have km: "distinct (connectionKeys (snd mid))"
  proof (cases "findConnection h1 nm src")
    case None
    with assms show ?thesis by (simp add: mid_def h1_def connectionKeys_def)
  next
    case (Some conn)
    show ?thesis
    proof (cases "config (server conn) = []")
      case True
      with Some assms show ?thesis by (simp add: mid_def h1_def connectionKeys_def)
    next
      case ne: False
      define h2 where "h2 = emit [ShowInformation ''mcp:info.server_restarting''] h1"
      define h3 where "h3 = h2\<lparr>connections :=
          updateFirst (foundBy h2 nm src)
            (mapServer (\<lambda>s. s\<lparr>status := Connecting, error := Some []\<rparr>)) (connections h2)\<rparr>"
      have "map connKey (connections h3) = map connKey (connections h)"
        unfolding h3_def h2_def h1_def
        by (simp add: keys_updateFirst connKey_mapServer)
      then have k3: "distinct (connectionKeys h3)"
        using assms by (simp add: connectionKeys_alt)
      obtain r h4 where n: "notifyWebviewOfServerChanges (re_notify1 env) h3 = (r, h4)"
        by (cases "notifyWebviewOfServerChanges (re_notify1 env) h3")
      have k4: "distinct (connectionKeys h4)"
        using keys_notify [of "re_notify1 env" h3] k3 by (simp add: n)
      have kb: "distinct (connectionKeys (restartBody sn h4 nm conn env))"
        using k4 by (rule keys_restartBody)
      have "mid = (case notifyWebviewOfServerChanges (re_notify1 env) h3 of
                     (Inl e, h4) \<Rightarrow> (Inl e, h4)
                   | (Inr u, h4) \<Rightarrow> (Inr (), restartBody sn h4 nm conn env))"
        using Some ne unfolding mid_def h3_def h2_def Let_def by simp
      with n k4 kb show ?thesis by (cases r) simp_all
    qed
  qed
  obtain r5 h5 where m: "mid = (r5, h5)" by (cases mid)
  have k5: "distinct (connectionKeys h5)" using km m by simp
  obtain r6 h6 where n2: "notifyWebviewOfServerChanges (re_notify2 env) h5 = (r6, h6)"
    by (cases "notifyWebviewOfServerChanges (re_notify2 env) h5")
  have k6: "distinct (connectionKeys h6)"
    using keys_notify [of "re_notify2 env" h5] k5 by (simp add: n2)
  have "restartConnection sn h nm src env
          = (case mid of
               (Inl e, h5) \<Rightarrow> (Inl e, h5)
             | (Inr u, h5) \<Rightarrow>
                 (case notifyWebviewOfServerChanges (re_notify2 env) h5 of
                    (Inl e, h6) \<Rightarrow> (Inl e, h6)
                  | (Inr u, h6) \<Rightarrow> (Inr (), h6\<lparr>isConnecting := False\<rparr>)))"
    using en unfolding restartConnection_def mid_def h1_def Let_def by simp
  with m n2 k5 k6 show ?thesis
    by (cases r5; cases r6) (simp_all add: connectionKeys_def)
qed

text \<open>
  C9 (as amended). If no two connections of the list have the same name and source, then
  after any sequence of \<open>connectToServer\<close>, \<open>deleteConnection\<close>,
  \<open>updateServerConnections\<close> and \<open>restartConnection\<close> calls, each run to its
  end before the next starts, no two connections have the same name and source. The list
  of a new hub is empty.
\<close>

theorem one_connection_per_key:
  assumes "distinct (connectionKeys h)"
  shows "distinct (connectionKeys (fold (applyRegistryOp sn) ops h))"
  using assms
proof (induction ops arbitrary: h)
  case Nil
  then show ?case by simp
next
  case (Cons op ops)
  have "distinct (connectionKeys (applyRegistryOp sn op h))"
    using Cons.prems
    by (cases op)
      (simp_all add: keys_connectToServer keys_deleteConnection keys_updateServerConnections
        keys_restartConnection)
  then show ?case using Cons.IH by simp
qed

lemma exOps_keys:
  "connectionKeys (fold (applyRegistryOp id) exOps (newHub False None)) = [(''srv'', Some Global)]"
  unfolding exOps_def fold_simps applyRegistryOp.simps newHub_connect
  by (simp add: connectionKeys_def connect_eval newHub_def connectToServer_def
      connectPrepare_def deleteConnection_def removeFileWatchersForServer_def
      isMcpEnabled_def setupFileWatcher_def sublist_code selected_def kept_def)

text \<open>
  Connecting \<open>srv\<close> twice, one call after the other, and deleting a server that is
  not there.
\<close>

theorem one_connection_per_key_witness:
  "distinct (connectionKeys (newHub False None))
   \<and> distinct (connectionKeys (fold (applyRegistryOp id) exOps (newHub False None)))
   \<and> connectionKeys (fold (applyRegistryOp id) exOps (newHub False None)) = [(''srv'', Some Global)]"
proof -
  have d0: "distinct (connectionKeys (newHub False None))"
    by (simp add: connectionKeys_def newHub_def)
  from one_connection_per_key [OF d0, of id exOps] d0 exOps_keys show ?thesis by simp
qed

text \<open>
  The claim as stated fails for calls that overlap: when a second \<open>connectToServer\<close>
  for \<open>srv\<close> runs its first part while the first call awaits its transport, both
  calls push a connection and the list holds two connections of one name and source.
\<close>

theorem overlapping_connects_counterexample:
  "connectionKeys (newHub False None) = []
   \<and> connectionKeys exOverlap = [(''srv'', Some Global), (''srv'', Some Global)]
   \<and> \<not> distinct (connectionKeys exOverlap)"
  by (simp add: exOverlap_keys) (simp add: connectionKeys_def newHub_def)

end
